theory Spec2Isabelle
  imports Main "HOL-Library.Word"
begin

unbundle bit_operations_syntax

section \<open>C data and faults\<close>

text \<open>
  The host application of the enclave is C and C++. A C \<open>char\<close> is a \<^typ>\<open>char\<close>, a
  \<open>uint8_t\<close> an \<^typ>\<open>8 word\<close>, a \<open>uint32_t\<close> and an \<open>sgx_status_t\<close> a
  \<^typ>\<open>32 word\<close>. An array object is the list of its cells, so its length is the size of
  the object. Behaviour that C leaves undefined is a \<open>fault\<close>, the left injection of the
  result.
\<close>

datatype fault = OutOfBounds | IndeterminateRead | NullDereference

type_synonym uint8_t = "8 word"
type_synonym uint32_t = "32 word"
type_synonym int32_t = "32 word"
type_synonym sgx_status_t = "32 word"
type_synonym sgx_enclave_id_t = "64 word"

text \<open>A pointer argument: \<open>NULL\<close>, or the object it points to (passed by value and result).\<close>

datatype 'a ptr = NULL | Ptr 'a

definition NUL :: char where
  "NUL = CHR 0x00"

definition newline :: char where
  "newline = CHR 0x0A"

definition dquote :: char where
  "dquote = CHR 0x22"

definition squote :: char where
  "squote = CHR 0x27"

text \<open>\<open>strlen\<close>: the index of the first NUL of the array; running off the array is a fault.\<close>

fun strlen :: "char list \<Rightarrow> fault + nat" where
  "strlen [] = Inl OutOfBounds"
| "strlen (c # cs) =
     (if c = NUL then Inr 0
      else case strlen cs of Inl e \<Rightarrow> Inl e | Inr k \<Rightarrow> Inr (Suc k))"

text \<open>The C string held by an array: the characters before its first NUL.\<close>

definition c_str :: "char list \<Rightarrow> char list" where
  "c_str buf = takeWhile (\<lambda>c. c \<noteq> NUL) buf"

section \<open>Reading a line (App.cpp, \<open>fgets_nonewline\<close>)\<close>

text \<open>
  \<open>read_line k s\<close> is what \<open>fgets\<close> consumes from the stream \<open>s\<close> when it may store
  at most \<open>k\<close> characters: it stops after a newline, after \<open>k\<close> characters, or at the end
  of the stream. The result is the characters read and the rest of the stream.
\<close>

fun read_line :: "nat \<Rightarrow> char list \<Rightarrow> char list \<times> char list" where
  "read_line 0 s = ([], s)"
| "read_line (Suc k) [] = ([], [])"
| "read_line (Suc k) (c # s) =
     (if c = newline then ([c], s)
      else case read_line k s of (l, r) \<Rightarrow> (c # l, r))"

text \<open>
  \<open>fgets(str, n, stream)\<close> of the C library: at most \<open>n - 1\<close> characters are read and a
  NUL is stored after them. When the stream is at its end and nothing was read, the array is
  left as it was (the call returns a null pointer, which \<open>fgets_nonewline\<close> ignores). With
  \<open>n = 0\<close> nothing is read or stored. Storing beyond the array is a fault.
\<close>

definition fgets :: "char list \<Rightarrow> nat \<Rightarrow> char list \<Rightarrow> fault + (char list \<times> char list)" where
  "fgets str n stream =
     (if n = 0 then Inr (str, stream)
      else case read_line (n - 1) stream of (l, r) \<Rightarrow>
        if l = [] \<and> 1 < n then Inr (str, r)
        else if length str < length l + 1 then Inl OutOfBounds
        else Inr (l @ [NUL] @ drop (length l + 1) str, r))"

text \<open>
  \<^verbatim>\<open>
  void fgets_nonewline(char *str, size_t n, FILE *stream) {
      fgets(str, n, stream);
      const uint32_t str_len = strlen(str) - 1;
      if (str[str_len] == '\n') {
        str[str_len] = '\0';
      }
      return;
  }
  \<close>
  \<open>strlen(str) - 1\<close> is computed in \<open>size_t\<close> and truncated to \<open>uint32_t\<close>, so it wraps
  to \<open>2^32 - 1\<close> when the string is empty.
\<close>

definition fgets_nonewline :: "char list \<Rightarrow> nat \<Rightarrow> char list \<Rightarrow> fault + (char list \<times> char list)" where
  "fgets_nonewline str n stream =
     (case fgets str n stream of Inl e \<Rightarrow> Inl e
      | Inr (str1, rest) \<Rightarrow>
         (case strlen str1 of Inl e \<Rightarrow> Inl e
          | Inr len \<Rightarrow>
             let str_len = (word_of_nat len - 1 :: uint32_t);
                 i = unat str_len
             in if length str1 \<le> i then Inl OutOfBounds
                else if str1 ! i = newline then Inr (str1[i := NUL], rest)
                else Inr (str1, rest)))"

section \<open>Formatting and scanning (the C library, as this program uses it)\<close>

definition hexdigit :: "string \<Rightarrow> nat \<Rightarrow> char" where
  "hexdigit digits k = digits ! (k mod 16)"

definition lower_digits :: string where
  "lower_digits = ''0123456789abcdef''"

definition upper_digits :: string where
  "upper_digits = ''0123456789ABCDEF''"

text \<open>The \<open>k\<close> low nibbles of a word, most significant first.\<close>

definition nibbles :: "string \<Rightarrow> nat \<Rightarrow> 'a::len word \<Rightarrow> string" where
  "nibbles digits k w = map (\<lambda>i. hexdigit digits (unat (drop_bit (4 * i) w))) (rev [0..<k])"

text \<open>\<open>printf("%02x", b)\<close> for a \<open>uint8_t\<close> and \<open>printf("%08x", w)\<close> for a \<open>uint32_t\<close>.\<close>

definition printf_02x :: "uint8_t \<Rightarrow> string" where
  "printf_02x b = nibbles lower_digits 2 b"

definition printf_08x :: "uint32_t \<Rightarrow> string" where
  "printf_08x w = nibbles lower_digits 8 w"

text \<open>\<open>printf("%X", w)\<close>: upper case, no padding, at least one digit.\<close>

definition printf_X :: "uint32_t \<Rightarrow> string" where
  "printf_X w =
     (case dropWhile (\<lambda>c. c = CHR ''0'') (nibbles upper_digits 8 w) of
        [] \<Rightarrow> ''0'' | ds \<Rightarrow> ds)"

function decimal :: "nat \<Rightarrow> string" where
  "decimal n = (if n < 10 then [hexdigit lower_digits n]
                else decimal (n div 10) @ [hexdigit lower_digits (n mod 10)])"
  by pat_completeness auto
termination
  by (relation "measure id") auto

declare decimal.simps [simp del]

text \<open>\<open>printf("%d", status)\<close>: the status read as a signed \<open>int\<close>.\<close>

definition printf_d :: "sgx_status_t \<Rightarrow> string" where
  "printf_d w = (if sint w < 0 then CHR ''-'' # decimal (nat (- sint w)) else decimal (nat (sint w)))"

definition isspace :: "char \<Rightarrow> bool" where
  "isspace c \<longleftrightarrow> c \<in> {CHR '' '', CHR 0x09, CHR 0x0A, CHR 0x0B, CHR 0x0C, CHR 0x0D}"

definition hex_val :: "char \<Rightarrow> nat option" where
  "hex_val c =
     (let k = (of_char c :: nat) in
      if of_char CHR ''0'' \<le> k \<and> k \<le> of_char CHR ''9'' then Some (k - of_char CHR ''0'')
      else if of_char CHR ''a'' \<le> k \<and> k \<le> of_char CHR ''f'' then Some (k - of_char CHR ''a'' + 10)
      else if of_char CHR ''A'' \<le> k \<and> k \<le> of_char CHR ''F'' then Some (k - of_char CHR ''A'' + 10)
      else None)"

text \<open>
  \<open>sscanf(pos, "%2hhx", dst)\<close> on the C string \<open>pos\<close>, as ISO C describes it: white space
  is skipped; the input item is the longest run of at most two characters that is, or
  starts, an optionally signed hexadecimal number with an optional \<open>0x\<close>; an item that is
  no number (empty, a lone sign, a lone \<open>0x\<close>) stores nothing. The result is the byte
  stored in \<open>*dst\<close>, or \<open>None\<close> when nothing is stored.
\<close>

definition sscanf_2hhx :: "char list \<Rightarrow> uint8_t option" where
  "sscanf_2hhx pos =
     (case dropWhile isspace pos of
        [] \<Rightarrow> None
      | c # t \<Rightarrow>
         if c = CHR ''+'' \<or> c = CHR ''-'' then
           (case t of
              [] \<Rightarrow> None
            | d # _ \<Rightarrow>
               (case hex_val d of
                  None \<Rightarrow> None
                | Some v \<Rightarrow> Some (if c = CHR ''-'' then - word_of_nat v else word_of_nat v)))
         else
           (case hex_val c of
              None \<Rightarrow> None
            | Some v \<Rightarrow>
               (case t of
                  [] \<Rightarrow> Some (word_of_nat v)
                | d # _ \<Rightarrow>
                   if c = CHR ''0'' \<and> (d = CHR ''x'' \<or> d = CHR ''X'') then None
                   else (case hex_val d of
                           None \<Rightarrow> Some (word_of_nat v)
                         | Some w \<Rightarrow> Some (word_of_nat (16 * v + w))))))"

section \<open>Hex decoding (App.cpp, \<open>hex2buf\<close>)\<close>

text \<open>
  \<^verbatim>\<open>
  for (count = 0; count < ret_size; count++) {
    sscanf(pos, "%2hhx", *ret + count);
    pos += 2;
  }
  \<close>
  The block returned by \<open>malloc\<close> starts indeterminate: a cell is \<open>None\<close> until a
  conversion stores a byte in it. The first argument is the string from \<open>pos\<close> on, the
  second the number of iterations left.
\<close>

fun hex2buf_loop :: "char list \<Rightarrow> nat \<Rightarrow> uint8_t option list" where
  "hex2buf_loop pos 0 = []"
| "hex2buf_loop pos (Suc k) = sscanf_2hhx pos # hex2buf_loop (drop 2 pos) k"

text \<open>
  \<^verbatim>\<open>
  uint32_t hex2buf(char data_to_sign[], uint8_t **ret) {
    if (!data_to_sign) { return 0; }
    const uint32_t nchars_to_sign = strlen(data_to_sign);
    if (nchars_to_sign % 2) { return 0; }
    const char *pos = data_to_sign;
    const uint32_t ret_size = nchars_to_sign / 2;
    *ret = (uint8_t*)malloc(ret_size);
    for ...
    return ret_size;
  }
  \<close>
  The result is the returned length and what the call did to \<open>*ret\<close>: \<open>None\<close> when it
  was not assigned (nothing was allocated), otherwise the allocated block. \<open>malloc\<close> is
  taken to succeed.
\<close>

definition hex2buf :: "char list ptr \<Rightarrow> fault + (uint32_t \<times> uint8_t option list option)" where
  "hex2buf data_to_sign =
     (case data_to_sign of
        NULL \<Rightarrow> Inr (0, None)
      | Ptr buf \<Rightarrow>
         (case strlen buf of
            Inl e \<Rightarrow> Inl e
          | Inr len \<Rightarrow>
             let nchars_to_sign = (word_of_nat len :: uint32_t) in
             if nchars_to_sign mod 2 \<noteq> 0 then Inr (0, None)
             else
               let ret_size = nchars_to_sign div 2
               in Inr (ret_size, Some (hex2buf_loop (c_str buf) (unat ret_size)))))"

section \<open>The host process and its platform\<close>

text \<open>
  A file of the host's file system, and the state of the host process: the process-wide
  enclave id, the two standard streams, the files by path, whether a missing file may be
  created, how many more bytes the medium accepts, and the calls made into the platform.
\<close>

record disk_file =
  readable :: bool
  writable :: bool
  content :: "uint8_t list"

datatype call =
    Sgx_create_enclave
  | Sgx_ecall sgx_enclave_id_t nat
  | Webauthn_get_signature sgx_enclave_id_t uint32_t
  | Sgx_destroy_enclave sgx_enclave_id_t

record host =
  global_eid :: sgx_enclave_id_t
  stdout :: string
  stdin :: string
  files :: "string \<Rightarrow> disk_file option"
  may_create :: "string \<Rightarrow> bool"
  write_room :: nat
  calls :: "call list"

definition printf :: "string \<Rightarrow> host \<Rightarrow> host" where
  "printf s h = h\<lparr>stdout := stdout h @ s\<rparr>"

definition called :: "call \<Rightarrow> host \<Rightarrow> host" where
  "called c h = h\<lparr>calls := calls h @ [c]\<rparr>"

text \<open>An open stream: the bytes of a file opened for reading, or a stream opened for writing.\<close>

datatype FILE = Reader "uint8_t list" | Writer

definition fopen_rb :: "string \<Rightarrow> host \<Rightarrow> FILE option" where
  "fopen_rb path h =
     (case files h path of
        None \<Rightarrow> None
      | Some f \<Rightarrow> if readable f then Some (Reader (content f)) else None)"

text \<open>Opening for writing truncates the file, and creates it when it is missing.\<close>

definition fopen_wb :: "string \<Rightarrow> host \<Rightarrow> FILE option \<times> host" where
  "fopen_wb path h =
     (case files h path of
        None \<Rightarrow>
          if may_create h path
          then (Some Writer,
                h\<lparr>files := (files h)(path \<mapsto> \<lparr>readable = True, writable = True, content = []\<rparr>)\<rparr>)
          else (None, h)
      | Some f \<Rightarrow>
          if writable f then (Some Writer, h\<lparr>files := (files h)(path \<mapsto> f\<lparr>content := []\<rparr>)\<rparr>)
          else (None, h))"

text \<open>
  \<open>fread(buf, 1, n, fp)\<close>: the array after the call and the number of bytes read. A stream
  opened for writing yields nothing.
\<close>

definition fread :: "uint8_t list \<Rightarrow> nat \<Rightarrow> FILE \<Rightarrow> uint8_t list \<times> nat" where
  "fread buf n fp =
     (case fp of
        Writer \<Rightarrow> (buf, 0)
      | Reader bytes \<Rightarrow>
          let k = min n (length bytes) in (take k bytes @ drop k buf, k))"

text \<open>Writing \<open>bytes\<close> to the file at \<open>path\<close>, open for writing: the number of bytes stored.\<close>

definition fwrite :: "uint8_t list \<Rightarrow> string \<Rightarrow> host \<Rightarrow> nat \<times> host" where
  "fwrite bytes path h =
     (let k = min (length bytes) (write_room h) in
      case files h path of
        None \<Rightarrow> (0, h)
      | Some f \<Rightarrow>
          (k, h\<lparr>files := (files h)(path \<mapsto> f\<lparr>content := content f @ take k bytes\<rparr>),
                write_room := write_room h - k\<rparr>))"

text \<open>The fixed-size structures that cross the boundary: arrays indexed from 0. The fields
  \<open>x\<close> and \<open>y\<close> of the signature are \<open>sig_x\<close> and \<open>sig_y\<close> here.\<close>

record sgx_ec256_public_t =
  gx :: "nat \<Rightarrow> uint8_t"
  gy :: "nat \<Rightarrow> uint8_t"

record sgx_ec256_signature_t =
  sig_x :: "nat \<Rightarrow> uint32_t"
  sig_y :: "nat \<Rightarrow> uint32_t"

text \<open>
  Modelled from the spec: the SDK header with the two array sizes is not part of the
  sources. The spec gives a coordinate of the public key as 64 hex characters at two
  characters a byte, and a coordinate of the signature as 8 limbs of 32 bits.
\<close>

definition SGX_ECP256_KEY_SIZE :: nat where
  "SGX_ECP256_KEY_SIZE = 32"

definition SGX_NISTP_ECP256_KEY_SIZE :: nat where
  "SGX_NISTP_ECP256_KEY_SIZE = 8"

definition SGX_SUCCESS :: sgx_status_t where
  "SGX_SUCCESS = 0"

text \<open>The status codes that \<open>sgx_errlist\<close> names; their values are the platform's.\<close>

datatype sgx_error_name =
    SGX_ERROR_UNEXPECTED
  | SGX_ERROR_INVALID_PARAMETER
  | SGX_ERROR_OUT_OF_MEMORY
  | SGX_ERROR_ENCLAVE_LOST
  | SGX_ERROR_INVALID_ENCLAVE
  | SGX_ERROR_INVALID_ENCLAVE_ID
  | SGX_ERROR_INVALID_SIGNATURE
  | SGX_ERROR_OUT_OF_EPC
  | SGX_ERROR_NO_DEVICE
  | SGX_ERROR_MEMORY_MAP_CONFLICT
  | SGX_ERROR_INVALID_METADATA
  | SGX_ERROR_DEVICE_BUSY
  | SGX_ERROR_INVALID_VERSION
  | SGX_ERROR_INVALID_ATTRIBUTE
  | SGX_ERROR_ENCLAVE_FILE_ACCESS

section \<open>Parameter blocks and the OCALL functions (Enclave\_u.c, App.cpp)\<close>

text \<open>
  Every block with a return value starts with \<open>ms_retval\<close>, 32 bits wide; it is \<open>None\<close>
  until somebody stores into it. The blocks of the two sealed-state OCALLs have the same
  layout.
\<close>

record ms_retval_t =
  ms_retval :: "32 word option"

record ms_get_public_key_t = ms_retval_t +
  ms_ret_pk :: "sgx_ec256_public_t ptr"

record ms_sign_data_t = ms_retval_t +
  ms_data :: "uint8_t list ptr"
  ms_data_size :: uint32_t
  ms_ret_signature :: "sgx_ec256_signature_t ptr"

record ms_untrusted_print_string_t =
  ms_str :: string

record ms_untrusted_save_enclave_data_t = ms_retval_t +
  ms_sealed_data :: "uint8_t list"
  ms_sealed_size :: nat

type_synonym ms_untrusted_load_enclave_data_t = ms_untrusted_save_enclave_data_t

datatype pms =
    Ms_print ms_untrusted_print_string_t
  | Ms_save ms_untrusted_save_enclave_data_t
  | Ms_load ms_untrusted_load_enclave_data_t

definition ENCLAVE_DATA_FILE :: string where
  "ENCLAVE_DATA_FILE = ''enclave_data.seal''"

text \<open>\<open>printf("%s", str)\<close>: the argument is the C string.\<close>

definition untrusted_print_string :: "string \<Rightarrow> host \<Rightarrow> host" where
  "untrusted_print_string str h = printf str h"

definition untrusted_get_user_input :: "char list \<Rightarrow> nat \<Rightarrow> host \<Rightarrow> fault + (char list \<times> host)" where
  "untrusted_get_user_input ret_str n h =
     (case fgets_nonewline ret_str n (stdin h) of
        Inl e \<Rightarrow> Inl e
      | Inr (str, rest) \<Rightarrow> Inr (str, h\<lparr>stdin := rest\<rparr>))"

text \<open>
  \<^verbatim>\<open>
  ofstream file(ENCLAVE_DATA_FILE, ios::out | ios::binary);
  if (file.fail()) { return 1; }
  file.write((const char*)sealed_data, sealed_size);
  file.close();
  return 0;
  \<close>
  Reading \<open>sealed_size\<close> bytes from a shorter array is a fault.
\<close>

definition untrusted_save_enclave_data :: "uint8_t list \<Rightarrow> nat \<Rightarrow> host \<Rightarrow> fault + (int32_t \<times> host)" where
  "untrusted_save_enclave_data sealed_data sealed_size h =
     (case fopen_wb ENCLAVE_DATA_FILE h of
        (None, h1) \<Rightarrow> Inr (1, h1)
      | (Some fp, h1) \<Rightarrow>
          if length sealed_data < sealed_size then Inl OutOfBounds
          else Inr (0, snd (fwrite (take sealed_size sealed_data) ENCLAVE_DATA_FILE h1)))"

text \<open>
  \<^verbatim>\<open>
  ifstream file(ENCLAVE_DATA_FILE, ios::in | ios::binary);
  if (file.fail()) { return 1; }
  file.read((char*)sealed_data, sealed_size);
  file.close();
  return 0;
  \<close>
  The result is the return value and the array after the call. Storing more bytes than
  the array holds is a fault.
\<close>

definition untrusted_load_enclave_data :: "uint8_t list \<Rightarrow> nat \<Rightarrow> host \<Rightarrow> fault + (int32_t \<times> uint8_t list)" where
  "untrusted_load_enclave_data sealed_data sealed_size h =
     (case fopen_rb ENCLAVE_DATA_FILE h of
        None \<Rightarrow> Inr (1, sealed_data)
      | Some fp \<Rightarrow>
          (case fread sealed_data sealed_size fp of
             (data, k) \<Rightarrow> if length sealed_data < k then Inl OutOfBounds else Inr (0, data)))"

text \<open>
  The bridges of Enclave\_u.c. Each casts the untyped block to its own type, calls its
  function of App.cpp, stores the return value in the block and returns
  \<open>SGX_SUCCESS\<close>. A block of another type is not what the bridge casts it to; the model
  faults there.
\<close>

type_synonym bridge = "pms \<Rightarrow> host \<Rightarrow> fault + (sgx_status_t \<times> pms \<times> host)"

definition Enclave_untrusted_print_string :: bridge where
  "Enclave_untrusted_print_string p h =
     (case p of
        Ms_print ms \<Rightarrow> Inr (SGX_SUCCESS, Ms_print ms, untrusted_print_string (ms_str ms) h)
      | _ \<Rightarrow> Inl OutOfBounds)"

definition Enclave_untrusted_save_enclave_data :: bridge where
  "Enclave_untrusted_save_enclave_data p h =
     (case p of
        Ms_save ms \<Rightarrow>
          (case untrusted_save_enclave_data (ms_sealed_data ms) (ms_sealed_size ms) h of
             Inl e \<Rightarrow> Inl e
           | Inr (r, h1) \<Rightarrow> Inr (SGX_SUCCESS, Ms_save (ms\<lparr>ms_retval := Some r\<rparr>), h1))
      | _ \<Rightarrow> Inl OutOfBounds)"

definition Enclave_untrusted_load_enclave_data :: bridge where
  "Enclave_untrusted_load_enclave_data p h =
     (case p of
        Ms_load ms \<Rightarrow>
          (case untrusted_load_enclave_data (ms_sealed_data ms) (ms_sealed_size ms) h of
             Inl e \<Rightarrow> Inl e
           | Inr (r, data) \<Rightarrow>
               Inr (SGX_SUCCESS, Ms_load (ms\<lparr>ms_retval := Some r, ms_sealed_data := data\<rparr>), h))
      | _ \<Rightarrow> Inl OutOfBounds)"

text \<open>
  \<^verbatim>\<open>
  static const struct {
      size_t nr_ocall;
      void * table[3];
  } ocall_table_Enclave = {
      3,
      { (void*)Enclave_untrusted_print_string,
        (void*)Enclave_untrusted_save_enclave_data,
        (void*)Enclave_untrusted_load_enclave_data, }
  };
  \<close>
\<close>

record ocall_table =
  nr_ocall :: nat
  table :: "bridge list"

definition ocall_table_Enclave :: ocall_table where
  "ocall_table_Enclave =
     \<lparr>nr_ocall = 3,
      table = [Enclave_untrusted_print_string,
               Enclave_untrusted_save_enclave_data,
               Enclave_untrusted_load_enclave_data]\<rparr>"

section \<open>The ECALL proxies (Enclave\_u.c)\<close>

text \<open>
  \<open>sgx_ecall\<close> is the platform's: from the enclave id, the index, the OCALL table and
  the block it gives a status and the block as the trusted side left it. A proxy takes it
  as its first argument, at the type of its own block. A pointer argument is passed with
  the object it points to; the object after the call is part of the result. The proxy
  returns the status, \<open>retval\<close> with what it points to after the call, and the output
  object.
  \<^verbatim>\<open>
  sgx_status_t status;
  ms_get_public_key_t ms;
  ms.ms_ret_pk = ret_pk;
  status = sgx_ecall(eid, 0, &ocall_table_Enclave, &ms);
  if (status == SGX_SUCCESS && retval) *retval = ms.ms_retval;
  return status;
  \<close>
\<close>

type_synonym 'ms sgx_ecall_t =
  "sgx_enclave_id_t \<Rightarrow> nat \<Rightarrow> ocall_table \<Rightarrow> 'ms \<Rightarrow> sgx_status_t \<times> 'ms"

definition get_public_key ::
  "ms_get_public_key_t sgx_ecall_t \<Rightarrow> sgx_enclave_id_t \<Rightarrow> sgx_status_t option ptr \<Rightarrow>
   sgx_ec256_public_t ptr \<Rightarrow> host \<Rightarrow>
   sgx_status_t \<times> sgx_status_t option ptr \<times> sgx_ec256_public_t ptr \<times> host" where
  "get_public_key sgx_ecall eid retval ret_pk h =
     (let ms = \<lparr>ms_retval = None, ms_ret_pk = ret_pk\<rparr>;
          (status, ms1) = sgx_ecall eid 0 ocall_table_Enclave ms;
          h1 = called (Sgx_ecall eid 0) h
      in (status,
          (if status = SGX_SUCCESS \<and> retval \<noteq> NULL then Ptr (ms_retval ms1) else retval),
          ms_ret_pk ms1, h1))"

definition sign_data ::
  "ms_sign_data_t sgx_ecall_t \<Rightarrow> sgx_enclave_id_t \<Rightarrow> sgx_status_t option ptr \<Rightarrow>
   uint8_t list ptr \<Rightarrow> uint32_t \<Rightarrow> sgx_ec256_signature_t ptr \<Rightarrow> host \<Rightarrow>
   sgx_status_t \<times> sgx_status_t option ptr \<times> sgx_ec256_signature_t ptr \<times> host" where
  "sign_data sgx_ecall eid retval data data_size ret_signature h =
     (let ms = \<lparr>ms_retval = None, ms_data = data, ms_data_size = data_size,
                ms_ret_signature = ret_signature\<rparr>;
          (status, ms1) = sgx_ecall eid 1 ocall_table_Enclave ms;
          h1 = called (Sgx_ecall eid 1) h
      in (status,
          (if status = SGX_SUCCESS \<and> retval \<noteq> NULL then Ptr (ms_retval ms1) else retval),
          ms_ret_signature ms1, h1))"

section \<open>Enclave lifecycle (App.cpp)\<close>

text \<open>
  What the program takes from outside its sources: the macros of App.h and the SDK, what
  \<open>getpwuid(getuid())\<close> returns (a null pointer when the user has no entry in the
  password database), the values of the status codes, and the platform calls.
  \<open>sgx_create_enclave\<close> gets the token, \<open>updated\<close> and the enclave id and gives
  its status and the three as it leaves them. \<open>webauthn_get_signature\<close> is the ECALL proxy that
  \<open>main\<close> calls; Enclave\_u.c does not define it. It gets the enclave id, what \<open>status\<close>
  holds, the bytes to sign and their number, the client data and its size and the signature
  object, and gives its own status, \<open>status\<close> and the signature after the call.
\<close>

record passwd =
  pw_dir :: "string ptr"

record platform =
  TOKEN_FILENAME :: string
  MAX_PATH :: nat
  sizeof_sgx_launch_token_t :: nat
  getpwuid :: "passwd ptr"
  sgx_error :: "sgx_error_name \<Rightarrow> sgx_status_t"
  sgx_create_enclave ::
    "uint8_t list \<Rightarrow> int \<Rightarrow> sgx_enclave_id_t \<Rightarrow>
     sgx_status_t \<times> uint8_t list \<times> int \<times> sgx_enclave_id_t"
  sgx_ecall :: "ms_get_public_key_t sgx_ecall_t"
  webauthn_get_signature ::
    "sgx_enclave_id_t \<Rightarrow> sgx_status_t option \<Rightarrow> uint8_t option list \<Rightarrow> uint32_t \<Rightarrow>
     char list \<Rightarrow> uint32_t \<Rightarrow> sgx_ec256_signature_t \<Rightarrow>
     sgx_status_t \<times> sgx_status_t option \<times> sgx_ec256_signature_t"

record sgx_errlist_t =
  err :: sgx_status_t
  msg :: string
  sug :: "string ptr"

definition sgx_errlist :: "(sgx_error_name \<Rightarrow> sgx_status_t) \<Rightarrow> sgx_errlist_t list" where
  "sgx_errlist code =
    [\<lparr>err = code SGX_ERROR_UNEXPECTED, msg = ''Unexpected error occurred.'', sug = NULL\<rparr>,
     \<lparr>err = code SGX_ERROR_INVALID_PARAMETER, msg = ''Invalid parameter.'', sug = NULL\<rparr>,
     \<lparr>err = code SGX_ERROR_OUT_OF_MEMORY, msg = ''Out of memory.'', sug = NULL\<rparr>,
     \<lparr>err = code SGX_ERROR_ENCLAVE_LOST, msg = ''Power transition occurred.'',
      sug = Ptr (''Please refer to the sample '' @ dquote # ''PowerTransition'' @ dquote # '' for details.'')\<rparr>,
     \<lparr>err = code SGX_ERROR_INVALID_ENCLAVE, msg = ''Invalid enclave image.'', sug = NULL\<rparr>,
     \<lparr>err = code SGX_ERROR_INVALID_ENCLAVE_ID, msg = ''Invalid enclave identification.'', sug = NULL\<rparr>,
     \<lparr>err = code SGX_ERROR_INVALID_SIGNATURE, msg = ''Invalid enclave signature.'', sug = NULL\<rparr>,
     \<lparr>err = code SGX_ERROR_OUT_OF_EPC, msg = ''Out of EPC memory.'', sug = NULL\<rparr>,
     \<lparr>err = code SGX_ERROR_NO_DEVICE, msg = ''Invalid SGX device.'',
      sug = Ptr ''Please make sure SGX module is enabled in the BIOS, and install SGX driver afterwards.''\<rparr>,
     \<lparr>err = code SGX_ERROR_MEMORY_MAP_CONFLICT, msg = ''Memory map conflicted.'', sug = NULL\<rparr>,
     \<lparr>err = code SGX_ERROR_INVALID_METADATA, msg = ''Invalid enclave metadata.'', sug = NULL\<rparr>,
     \<lparr>err = code SGX_ERROR_DEVICE_BUSY, msg = ''SGX device was busy.'', sug = NULL\<rparr>,
     \<lparr>err = code SGX_ERROR_INVALID_VERSION, msg = ''Enclave version was invalid.'', sug = NULL\<rparr>,
     \<lparr>err = code SGX_ERROR_INVALID_ATTRIBUTE, msg = ''Enclave was not authorized.'', sug = NULL\<rparr>,
     \<lparr>err = code SGX_ERROR_ENCLAVE_FILE_ACCESS, msg = ''Can'' @ squote # ''t open enclave file.'', sug = NULL\<rparr>]"

text \<open>
  \<^verbatim>\<open>
  for (idx = 0; idx < ttl; idx++) {
      if(ret == sgx_errlist[idx].err) {
          if(NULL != sgx_errlist[idx].sug)
              printf("Info: %s\n", sgx_errlist[idx].sug);
          printf("Error: %s\n", sgx_errlist[idx].msg);
          break;
      }
  }
  \<close>
  The loop from \<open>idx\<close> on: the value of \<open>idx\<close> when it ends, and the host.
\<close>

function print_error_loop :: "sgx_errlist_t list \<Rightarrow> sgx_status_t \<Rightarrow> nat \<Rightarrow> host \<Rightarrow> nat \<times> host" where
  "print_error_loop errlist ret idx h =
     (if idx < length errlist then
        if ret = err (errlist ! idx) then
          (idx,
           printf (''Error: '' @ msg (errlist ! idx) @ [newline])
             (case sug (errlist ! idx) of
                NULL \<Rightarrow> h
              | Ptr s \<Rightarrow> printf (''Info: '' @ s @ [newline]) h))
        else print_error_loop errlist ret (idx + 1) h
      else (idx, h))"
  by pat_completeness auto
termination
  by (relation "measure (\<lambda>(errlist, ret, idx, h). length errlist - idx)") auto

declare print_error_loop.simps [simp del]

definition print_error_message :: "(sgx_error_name \<Rightarrow> sgx_status_t) \<Rightarrow> sgx_status_t \<Rightarrow> host \<Rightarrow> host" where
  "print_error_message code ret h =
     (let ttl = length (sgx_errlist code);
          (idx, h1) = print_error_loop (sgx_errlist code) ret 0 h
      in if idx = ttl
         then printf (''Error code is 0x'' @ printf_X ret @
                ''. Please refer to the '' @ dquote # ''Intel SGX SDK Developer Reference'' @
                dquote # '' for more details.'' @
                [newline]) h1
         else h1)"

text \<open>
  \<^verbatim>\<open>
  const char *home_dir = getpwuid(getuid())->pw_dir;
  if (home_dir != NULL &&
      (strlen(home_dir)+strlen("/")+sizeof(TOKEN_FILENAME)+1) <= MAX_PATH) {
      strncpy(token_path, home_dir, strlen(home_dir));
      strncat(token_path, "/", strlen("/"));
      strncat(token_path, TOKEN_FILENAME, sizeof(TOKEN_FILENAME)+1);
  } else {
      strncpy(token_path, TOKEN_FILENAME, sizeof(TOKEN_FILENAME));
  }
  \<close>
  The result of \<open>getpwuid\<close> is used without a check: when it is null, reading its
  \<open>pw_dir\<close> is a fault and nothing else of \<open>initialize_enclave\<close> runs.
\<close>

definition token_path :: "platform \<Rightarrow> fault + string" where
  "token_path P =
     (case getpwuid P of
        NULL \<Rightarrow> Inl NullDereference
      | Ptr pw \<Rightarrow>
          (case pw_dir pw of
             NULL \<Rightarrow> Inr (TOKEN_FILENAME P)
           | Ptr home_dir \<Rightarrow>
               if length home_dir + length ''/'' + (length (TOKEN_FILENAME P) + 1) + 1 \<le> MAX_PATH P
               then Inr (home_dir @ ''/'' @ TOKEN_FILENAME P)
               else Inr (TOKEN_FILENAME P)))"

text \<open>
  Step 1 of \<open>initialize_enclave\<close>, from its first line up to the call of
  \<open>sgx_create_enclave\<close>: the path is composed, which can fault, and then the token is
  read. The result is the token that the call will get, the stream \<open>fp\<close> and the host.
  \<^verbatim>\<open>
  sgx_launch_token_t token = {0};
  FILE *fp = fopen(token_path, "rb");
  if (fp == NULL && (fp = fopen(token_path, "wb")) == NULL) {
      printf("Warning: Failed to create/open the launch token file \"%s\".\n", token_path);
  }
  if (fp != NULL) {
      size_t read_num = fread(token, 1, sizeof(sgx_launch_token_t), fp);
      if (read_num != 0 && read_num != sizeof(sgx_launch_token_t)) {
          memset(&token, 0x0, sizeof(sgx_launch_token_t));
          printf("Warning: Invalid launch token read from \"%s\".\n", token_path);
      }
  }
  \<close>
\<close>

definition retrieve_launch_token ::
  "platform \<Rightarrow> host \<Rightarrow> fault + (uint8_t list \<times> FILE option \<times> host)" where
  "retrieve_launch_token P h =
     (case token_path P of
        Inl e \<Rightarrow> Inl e
      | Inr path \<Rightarrow>
          Inr (let token = replicate (sizeof_sgx_launch_token_t P) 0;
                   (fp, h1) =
                     (case fopen_rb path h of
                        Some s \<Rightarrow> (Some s, h)
                      | None \<Rightarrow>
                          (case fopen_wb path h of
                             (Some s, h0) \<Rightarrow> (Some s, h0)
                           | (None, h0) \<Rightarrow>
                               (None,
                                printf (''Warning: Failed to create/open the launch token file '' @
                                        dquote # path @ dquote # ''.'' @ [newline]) h0)))
               in case fp of
                    None \<Rightarrow> (token, None, h1)
                  | Some s \<Rightarrow>
                      (case fread token (sizeof_sgx_launch_token_t P) s of
                         (token1, read_num) \<Rightarrow>
                           if read_num \<noteq> 0 \<and> read_num \<noteq> sizeof_sgx_launch_token_t P
                           then (replicate (sizeof_sgx_launch_token_t P) 0, Some s,
                                 printf (''Warning: Invalid launch token read from '' @
                                         dquote # path @ dquote # ''.'' @ [newline]) h1)
                           else (token1, Some s, h1))))"

text \<open>
  \<open>initialize_enclave\<close>: step 1, then steps 2 and 3. The enclave is created; on an
  error the message is printed and the result is -1; otherwise the token is written back
  when it was updated and \<open>fp\<close> is open. \<open>path\<close> is the local array \<open>token_path\<close>.
\<close>

definition initialize_enclave :: "platform \<Rightarrow> host \<Rightarrow> fault + (int \<times> host)" where
  "initialize_enclave P h =
     (case token_path P of
        Inl e \<Rightarrow> Inl e
      | Inr path \<Rightarrow>
     (case retrieve_launch_token P h of
        Inl e \<Rightarrow> Inl e
      | Inr (token, fp, h1) \<Rightarrow>
          Inr (case sgx_create_enclave P token 0 (global_eid h1) of
             (ret, token1, updated, eid) \<Rightarrow>
               let h2 = called Sgx_create_enclave (h1\<lparr>global_eid := eid\<rparr>) in
               if ret \<noteq> SGX_SUCCESS then (- 1, print_error_message (sgx_error P) ret h2)
               else if updated = 0 \<or> fp = None then (0, h2)
               else
                 (case fopen_wb path h2 of
                    (None, h3) \<Rightarrow> (0, h3)
                  | (Some s, h3) \<Rightarrow>
                      (case fwrite (take (sizeof_sgx_launch_token_t P) token1) path h3 of
                         (write_num, h4) \<Rightarrow>
                           if write_num \<noteq> sizeof_sgx_launch_token_t P
                           then (0, printf (''Warning: Failed to save launch token to '' @
                                            dquote # path @ dquote # ''.'' @ [newline]) h4)
                           else (0, h4))))))"

section \<open>The application entry (App.cpp, \<open>main\<close>)\<close>

text \<open>What the automatic variables of \<open>main\<close> hold before anything is stored in them.\<close>

record stack =
  client_data_json :: "nat \<Rightarrow> char"
  data_to_sign :: "nat \<Rightarrow> char"
  pk :: sgx_ec256_public_t
  signature :: sgx_ec256_signature_t

definition array :: "nat \<Rightarrow> (nat \<Rightarrow> 'a) \<Rightarrow> 'a list" where
  "array n f = map f [0..<n]"

text \<open>\<open>for (i = n - 1; i >= 0; i--) printf(..., a[i]);\<close> with \<open>f i\<close> the text for \<open>a[i]\<close>.\<close>

fun print_down :: "(nat \<Rightarrow> string) \<Rightarrow> nat \<Rightarrow> string" where
  "print_down f 0 = []"
| "print_down f (Suc i) = f i @ print_down f i"

definition getchar :: "host \<Rightarrow> host" where
  "getchar h = h\<lparr>stdin := drop 1 (stdin h)\<rparr>"

definition print_public_key :: "sgx_ec256_public_t \<Rightarrow> string" where
  "print_public_key k =
     ''Public Key:'' @ [newline] @
     ''gx: '' @ print_down (\<lambda>i. printf_02x (gx k i)) SGX_ECP256_KEY_SIZE @ [newline] @
     ''gy: '' @ print_down (\<lambda>i. printf_02x (gy k i)) SGX_ECP256_KEY_SIZE @ [newline] @
     [newline, newline]"

definition print_signature :: "sgx_ec256_signature_t \<Rightarrow> string" where
  "print_signature sg =
     ''Resulting signature: '' @
     print_down (\<lambda>i. printf_08x (sig_x sg i)) SGX_NISTP_ECP256_KEY_SIZE @
     '','' @
     print_down (\<lambda>i. printf_08x (sig_y sg i)) SGX_NISTP_ECP256_KEY_SIZE @ [newline]"

text \<open>
  \<open>main\<close> from the decoding of the hex input on (App.cpp, lines 374 to 419): the exit
  code and the host.
\<close>

definition main_sign :: "platform \<Rightarrow> stack \<Rightarrow> sgx_status_t \<Rightarrow> char list \<Rightarrow> char list \<Rightarrow> host \<Rightarrow> fault + (int \<times> host)" where
  "main_sign P g status json hex h =
     (case hex2buf (Ptr hex) of
        Inl e \<Rightarrow> Inl e
      | Inr (nbytes_to_sign, bytes_to_sign) \<Rightarrow>
          if nbytes_to_sign = 0
          then Inr (- 1, printf (''Error receiving data to sign!'' @ [newline]) h)
          else
            (case bytes_to_sign of
               None \<Rightarrow> Inl IndeterminateRead
             | Some bytes \<Rightarrow>
                 (case webauthn_get_signature P (global_eid h) (Some status) bytes nbytes_to_sign
                         json 1024 (signature g) of
                    (_, status1, signature1) \<Rightarrow>
                      let h1 = called (Webauthn_get_signature (global_eid h) nbytes_to_sign) h in
                      (case status1 of
                         None \<Rightarrow> Inl IndeterminateRead
                       | Some st \<Rightarrow>
                           if st \<noteq> 0
                           then Inr (- 1, printf (''Signature Error: '' @ printf_d st @ ''!'' @ [newline]) h1)
                           else Inr (0, called (Sgx_destroy_enclave (global_eid h1))
                                          (printf (print_signature signature1) h1))))))"

text \<open>
  \<open>main\<close>. A fault in \<open>initialize_enclave\<close> ends the process. \<open>status\<close> starts indeterminate, and \<open>main\<close> does not look at what
  \<open>get_public_key\<close> returns, so it reads an indeterminate \<open>status\<close> when the ECALL
  itself failed.
\<close>

definition main :: "platform \<Rightarrow> stack \<Rightarrow> host \<Rightarrow> fault + (int \<times> host)" where
  "main P g h =
     (case initialize_enclave P h of
        Inl e \<Rightarrow> Inl e
      | Inr (r, h1) \<Rightarrow>
          if r < 0
          then Inr (- 1, getchar (printf (''Enter a character before exit ...'' @ [newline])
                                   (printf (''Failed to initialize enclave!'' @ [newline]) h1)))
          else
            (case get_public_key (sgx_ecall P) (global_eid h1) (Ptr None) (Ptr (pk g)) h1 of
               (_, status_p, pk_p, h2) \<Rightarrow>
                 (case status_p of
                    NULL \<Rightarrow> Inl IndeterminateRead
                  | Ptr None \<Rightarrow> Inl IndeterminateRead
                  | Ptr (Some status) \<Rightarrow>
                      if status \<noteq> 0
                      then Inr (- 1, printf (''App Error: '' @ printf_d status @ ''!'' @ [newline]) h2)
                      else
                        let pk1 = (case pk_p of NULL \<Rightarrow> pk g | Ptr k \<Rightarrow> k);
                            h3 = printf (''Enter client JSON data:'' @ [newline])
                                   (printf (print_public_key pk1) h2)
                        in
                        (case fgets_nonewline (array 1024 (client_data_json g)) 1024 (stdin h3) of
                           Inl e \<Rightarrow> Inl e
                         | Inr (json, rest1) \<Rightarrow>
                             let h4 = printf (''Enter hex data to sign:'' @ [newline])
                                        (printf [newline] (h3\<lparr>stdin := rest1\<rparr>))
                             in
                             (case fgets_nonewline (array 256 (data_to_sign g)) 256 (stdin h4) of
                                Inl e \<Rightarrow> Inl e
                              | Inr (hex, rest2) \<Rightarrow>
                                  main_sign P g status json hex
                                    (printf [newline] (h4\<lparr>stdin := rest2\<rparr>)))))))"

section \<open>Example instances\<close>

text \<open>
  A platform on which everything succeeds, with distinct values for the status codes, a
  public key and a signature with recognisable limbs, and a host with an empty file system.
\<close>

definition example_code :: "sgx_error_name \<Rightarrow> sgx_status_t" where
  "example_code e =
     (case e of
        SGX_ERROR_UNEXPECTED \<Rightarrow> 0x0001
      | SGX_ERROR_INVALID_PARAMETER \<Rightarrow> 0x0002
      | SGX_ERROR_OUT_OF_MEMORY \<Rightarrow> 0x0003
      | SGX_ERROR_ENCLAVE_LOST \<Rightarrow> 0x0004
      | SGX_ERROR_INVALID_ENCLAVE \<Rightarrow> 0x2001
      | SGX_ERROR_INVALID_ENCLAVE_ID \<Rightarrow> 0x2002
      | SGX_ERROR_INVALID_SIGNATURE \<Rightarrow> 0x2003
      | SGX_ERROR_OUT_OF_EPC \<Rightarrow> 0x2005
      | SGX_ERROR_NO_DEVICE \<Rightarrow> 0x2006
      | SGX_ERROR_MEMORY_MAP_CONFLICT \<Rightarrow> 0x2007
      | SGX_ERROR_INVALID_METADATA \<Rightarrow> 0x2009
      | SGX_ERROR_DEVICE_BUSY \<Rightarrow> 0x200C
      | SGX_ERROR_INVALID_VERSION \<Rightarrow> 0x200D
      | SGX_ERROR_INVALID_ATTRIBUTE \<Rightarrow> 0x3002
      | SGX_ERROR_ENCLAVE_FILE_ACCESS \<Rightarrow> 0x200F)"

definition example_pk :: sgx_ec256_public_t where
  "example_pk = \<lparr>gx = (\<lambda>i. word_of_nat i), gy = (\<lambda>i. word_of_nat (255 - i))\<rparr>"

definition example_signature :: sgx_ec256_signature_t where
  "example_signature = \<lparr>sig_x = (\<lambda>i. word_of_nat i), sig_y = (\<lambda>i. word_of_nat (16 * i))\<rparr>"

text \<open>A signer whose result depends on the bytes it is given: their sum is added to every limb of \<open>x\<close>.\<close>

definition example_sign :: "uint8_t option list \<Rightarrow> sgx_ec256_signature_t" where
  "example_sign bytes =
     \<lparr>sig_x = (\<lambda>i. word_of_nat i +
               sum_list (map (\<lambda>b. case b of None \<Rightarrow> 0 | Some v \<Rightarrow> ucast v) bytes)),
      sig_y = (\<lambda>i. word_of_nat (16 * i))\<rparr>"

definition example_ecall :: "ms_get_public_key_t sgx_ecall_t" where
  "example_ecall eid idx tbl ms = (SGX_SUCCESS, ms\<lparr>ms_retval := Some 0, ms_ret_pk := Ptr example_pk\<rparr>)"

definition example_ecall_sign :: "ms_sign_data_t sgx_ecall_t" where
  "example_ecall_sign eid idx tbl ms =
     (SGX_SUCCESS, ms\<lparr>ms_retval := Some 0, ms_ret_signature := Ptr example_signature\<rparr>)"

definition example_platform :: platform where
  "example_platform =
     \<lparr>TOKEN_FILENAME = ''enclave.token'',
      MAX_PATH = 4096,
      sizeof_sgx_launch_token_t = 1024,
      getpwuid = Ptr \<lparr>pw_dir = Ptr ''/home/user''\<rparr>,
      sgx_error = example_code,
      sgx_create_enclave = (\<lambda>token updated eid. (SGX_SUCCESS, token, 0, 2)),
      sgx_ecall = example_ecall,
      webauthn_get_signature =
        (\<lambda>eid status bytes nbytes json json_size sg. (SGX_SUCCESS, Some 0, example_sign bytes))\<rparr>"

definition example_stack :: stack where
  "example_stack =
     \<lparr>client_data_json = (\<lambda>i. CHR ''?''),
      data_to_sign = (\<lambda>i. CHR ''?''),
      pk = \<lparr>gx = (\<lambda>i. 0), gy = (\<lambda>i. 0)\<rparr>,
      signature = \<lparr>sig_x = (\<lambda>i. 0), sig_y = (\<lambda>i. 0)\<rparr>\<rparr>"

definition example_host :: "string \<Rightarrow> (string \<Rightarrow> disk_file option) \<Rightarrow> host" where
  "example_host input fs =
     \<lparr>global_eid = 0, stdout = [], stdin = input, files = fs, may_create = (\<lambda>p. True),
      write_room = 4096, calls = []\<rparr>"

definition only_file :: "string \<Rightarrow> disk_file \<Rightarrow> string \<Rightarrow> disk_file option" where
  "only_file path f = (\<lambda>p. if p = path then Some f else None)"


text \<open>The client data \<^verbatim>\<open>{"origin":"example"}\<close>.\<close>

definition example_json :: string where
  "example_json = ''{'' @ dquote # ''origin'' @ dquote # '':'' @ dquote # ''example'' @ dquote # ''}''"


section \<open>Properties\<close>

lemma strlen_append_NUL:
  "NUL \<notin> set l \<Longrightarrow> strlen (l @ NUL # t) = Inr (length l)"
  by (induction l) auto

lemma c_str_append_NUL:
  "NUL \<notin> set l \<Longrightarrow> c_str (l @ NUL # t) = l"
  by (induction l) (auto simp: c_str_def)

lemma read_line_newline:
  "newline \<notin> set l \<Longrightarrow> length l < k \<Longrightarrow> read_line k (l @ newline # s) = (l @ [newline], s)"
  by (induction k "l @ newline # s" arbitrary: l rule: read_line.induct) (auto simp: Cons_eq_append_conv)

lemma read_line_Nil: "read_line k [] = ([], [])"
  by (cases k) simp_all

lemma unat_minus_one_32: "unat (- 1 :: 32 word) = 4294967295"
  by (simp add: unsigned_minus_1_eq_mask mask_eq_exp_minus_1)

subsection \<open>Reading a line\<close>

text \<open>
  Whenever \<open>fgets\<close> leaves an empty string in the array, the index \<open>strlen(str) - 1\<close>
  is \<open>2^32 - 1\<close> and the read of \<open>str[str_len]\<close> is outside the array.
\<close>

lemma fgets_nonewline_empty:
  assumes "fgets str n stream = Inr (str1, r)" and "strlen str1 = Inr 0"
    and "length str1 < 2 ^ 32"
  shows "fgets_nonewline str n stream = Inl OutOfBounds"
  using assms by (simp add: fgets_nonewline_def unat_minus_one_32)

lemma fgets_line:
  assumes "newline \<notin> set l" and "length l + 1 < n" and "n \<le> length str"
  shows "fgets str n (l @ newline # s) = Inr (l @ newline # NUL # drop (length l + 2) str, s)"
proof -
  have "read_line (n - 1) (l @ newline # s) = (l @ [newline], s)"
    using assms by (intro read_line_newline) auto
  then show ?thesis
    using assms by (simp add: fgets_def)
qed

text \<open>
  A line that fits, without NUL characters and ended by a newline, is stored without the
  newline; the rest of the stream is left for the next read.
\<close>

lemma fgets_nonewline_line:
  assumes "newline \<notin> set l" and "NUL \<notin> set l" and "length l + 1 < n" and "n \<le> length str"
    and "length str < 2 ^ 32"
  shows "fgets_nonewline str n (l @ newline # s) = Inr (l @ NUL # NUL # drop (length l + 2) str, s)"
proof -
  have nl: "newline \<noteq> NUL" by (simp add: newline_def NUL_def)
  have len: "strlen ((l @ [newline]) @ NUL # drop (length l + 2) str) = Inr (length (l @ [newline]))"
    by (rule strlen_append_NUL) (use assms nl in auto)
  have u: "unat (word_of_nat (length l) :: 32 word) = length l"
    using assms by (simp add: unat_of_nat)
  show ?thesis
    using assms len by (simp add: fgets_nonewline_def fgets_line u Let_def nth_append list_update_append)
qed

lemma fgets_nonewline_hello:
  "map_sum id (c_str \<circ> fst) (fgets_nonewline (replicate 8 (CHR ''z'')) 8 (''hello'' @ newline # s)) =
   Inr ''hello''"
  by (subst fgets_nonewline_line) (simp_all add: newline_def NUL_def c_str_def)

text \<open>
  C1. \<open>fgets_nonewline\<close> is to strip one trailing newline and, on an empty line, not to
  underflow in the trim check. It does underflow: with a buffer of one byte \<open>fgets\<close>
  stores the empty string, and at the end of the input it leaves the array as it was, here
  with an empty string in it; \<open>strlen(str) - 1\<close> is then \<open>2^32 - 1\<close> and the read of
  \<open>str[str_len]\<close> is outside the array.
\<close>

theorem fgets_nonewline_empty_underflows:
  "fgets_nonewline [CHR ''z''] 1 (''hello'' @ [newline]) = Inl OutOfBounds \<and>
   fgets_nonewline [NUL, CHR ''z'', CHR ''z'', CHR ''z''] 4 [] = Inl OutOfBounds"
  by (simp add: fgets_nonewline_def fgets_def unat_minus_one_32 read_line_Nil)

subsection \<open>The ECALL proxies\<close>

text \<open>
  C6. Each proxy enters the enclave through \<open>sgx_ecall\<close> at its own fixed index, 0 for
  \<open>get_public_key\<close> and 1 for \<open>sign_data\<close>: whatever the platform answers at that
  index is the status that the proxy returns, unchanged, and on \<open>SGX_SUCCESS\<close> the
  caller's \<open>retval\<close> holds the \<open>ms_retval\<close> of the block after the call. One call is
  made, at that index.
\<close>

theorem ecall_proxies_marshal:
  assumes "ecall0 eid 0 ocall_table_Enclave \<lparr>ms_retval = None, ms_ret_pk = ret_pk\<rparr> = (st0, ms0)"
    and "ecall1 eid 1 ocall_table_Enclave
           \<lparr>ms_retval = None, ms_data = data, ms_data_size = data_size,
            ms_ret_signature = ret_signature\<rparr> = (st1, ms1)"
  shows "fst (get_public_key ecall0 eid retval ret_pk h) = st0 \<and>
         fst (sign_data ecall1 eid retval data data_size ret_signature h) = st1 \<and>
         (st0 = SGX_SUCCESS \<longrightarrow>
            fst (snd (get_public_key ecall0 eid (Ptr r) ret_pk h)) = Ptr (ms_retval ms0)) \<and>
         (st1 = SGX_SUCCESS \<longrightarrow>
            fst (snd (sign_data ecall1 eid (Ptr r) data data_size ret_signature h)) =
            Ptr (ms_retval ms1)) \<and>
         calls (snd (snd (snd (get_public_key ecall0 eid retval ret_pk h)))) =
           calls h @ [Sgx_ecall eid 0] \<and>
         calls (snd (snd (snd (sign_data ecall1 eid retval data data_size ret_signature h)))) =
           calls h @ [Sgx_ecall eid 1]"
  using assms by (simp add: get_public_key_def sign_data_def called_def)

theorem ecall_proxies_marshal_witness:
  "fst (get_public_key example_ecall 2 (Ptr None) (Ptr (pk example_stack)) (example_host [] (\<lambda>p. None))) =
     SGX_SUCCESS \<and>
   fst (snd (get_public_key example_ecall 2 (Ptr None) (Ptr (pk example_stack))
               (example_host [] (\<lambda>p. None)))) = Ptr (Some 0) \<and>
   fst (snd (sign_data example_ecall_sign 2 (Ptr None) (Ptr [1, 2]) 2 (Ptr (signature example_stack))
               (example_host [] (\<lambda>p. None)))) = Ptr (Some 0) \<and>
   calls (snd (snd (snd (sign_data example_ecall_sign 2 (Ptr None) (Ptr [1, 2]) 2
                           (Ptr (signature example_stack)) (example_host [] (\<lambda>p. None)))))) =
     [Sgx_ecall 2 1]"
  using ecall_proxies_marshal [of example_ecall 2 "Ptr (pk example_stack)" SGX_SUCCESS
      "\<lparr>ms_retval = Some 0, ms_ret_pk = Ptr example_pk\<rparr>" example_ecall_sign "Ptr [1, 2]" 2
      "Ptr (signature example_stack)" SGX_SUCCESS
      "\<lparr>ms_retval = Some 0, ms_data = Ptr [1, 2], ms_data_size = 2,
        ms_ret_signature = Ptr example_signature\<rparr>"
      "Ptr None" "example_host [] (\<lambda>p. None)" None]
  by (simp add: example_ecall_def example_ecall_sign_def example_host_def)

text \<open>
  C10. When \<open>sgx_ecall\<close> does not return \<open>SGX_SUCCESS\<close>, what \<open>retval\<close> points to
  is as it was before the call, for both proxies; a null \<open>retval\<close> stays null.
\<close>

theorem ecall_failure_keeps_retval:
  "(fst (ecall0 eid 0 ocall_table_Enclave \<lparr>ms_retval = None, ms_ret_pk = ret_pk\<rparr>) \<noteq> SGX_SUCCESS \<longrightarrow>
      fst (snd (get_public_key ecall0 eid retval ret_pk h)) = retval) \<and>
   (fst (ecall1 eid 1 ocall_table_Enclave
           \<lparr>ms_retval = None, ms_data = data, ms_data_size = data_size,
            ms_ret_signature = ret_signature\<rparr>) \<noteq> SGX_SUCCESS \<longrightarrow>
      fst (snd (sign_data ecall1 eid retval data data_size ret_signature h)) = retval) \<and>
   fst (snd (get_public_key ecall0 eid NULL ret_pk h)) = NULL \<and>
   fst (snd (sign_data ecall1 eid NULL data data_size ret_signature h)) = NULL"
  by (simp add: get_public_key_def sign_data_def split: prod.splits)

theorem ecall_failure_keeps_retval_witness:
  "fst (snd (get_public_key (\<lambda>eid idx tbl ms. (1, ms\<lparr>ms_retval := Some 5\<rparr>)) 2 (Ptr (Some 7))
               (Ptr example_pk) (example_host [] (\<lambda>p. None)))) = Ptr (Some 7) \<and>
   fst (snd (sign_data (\<lambda>eid idx tbl ms. (1, ms\<lparr>ms_retval := Some 5\<rparr>)) 2 (Ptr (Some 7))
               (Ptr [1, 2]) 2 (Ptr example_signature) (example_host [] (\<lambda>p. None)))) = Ptr (Some 7)"
  using ecall_failure_keeps_retval [of "\<lambda>eid idx tbl ms. (1, ms\<lparr>ms_retval := Some 5\<rparr>)" 2
      "Ptr example_pk" "Ptr (Some 7)" "example_host [] (\<lambda>p. None)"
      "\<lambda>eid idx tbl ms. (1, ms\<lparr>ms_retval := Some 5\<rparr>)" "Ptr [1, 2]" 2 "Ptr example_signature"]
  by (simp add: SGX_SUCCESS_def)

subsection \<open>Reporting a platform error\<close>

lemma print_error_loop_miss:
  "idx \<le> length errlist \<Longrightarrow> find (\<lambda>e. err e = ret) (drop idx errlist) = None \<Longrightarrow>
   print_error_loop errlist ret idx h = (length errlist, h)"
proof (induction errlist ret idx h rule: print_error_loop.induct)
  case (1 errlist ret idx h)
  show ?case
  proof (cases "idx < length errlist")
    case True
    then have d: "drop idx errlist = errlist ! idx # drop (Suc idx) errlist"
      by (simp add: Cons_nth_drop_Suc)
    with "1.prems" have ne: "ret \<noteq> err (errlist ! idx)"
      and rest: "find (\<lambda>e. err e = ret) (drop (Suc idx) errlist) = None"
      by (auto split: if_splits)
    from "1.IH" [OF True ne] True rest
    have "print_error_loop errlist ret (idx + 1) h = (length errlist, h)" by simp
    with True ne show ?thesis by (subst print_error_loop.simps) simp
  next
    case False
    with "1.prems" show ?thesis by (subst print_error_loop.simps) simp
  qed
qed

lemma print_error_loop_hit:
  "find (\<lambda>e. err e = ret) (drop idx errlist) = Some e \<Longrightarrow>
   \<exists>i < length errlist.
     print_error_loop errlist ret idx h =
       (i, printf (''Error: '' @ msg e @ [newline])
             (case sug e of NULL \<Rightarrow> h | Ptr s \<Rightarrow> printf (''Info: '' @ s @ [newline]) h))"
proof (induction errlist ret idx h rule: print_error_loop.induct)
  case (1 errlist ret idx h)
  show ?case
  proof (cases "idx < length errlist")
    case True
    then have d: "drop idx errlist = errlist ! idx # drop (Suc idx) errlist"
      by (simp add: Cons_nth_drop_Suc)
    show ?thesis
    proof (cases "ret = err (errlist ! idx)")
      case hit: True
      with "1.prems" d have "e = errlist ! idx" by simp
      with True hit show ?thesis
        by (subst print_error_loop.simps) auto
    next
      case miss: False
      with "1.prems" d have "find (\<lambda>e. err e = ret) (drop (Suc idx) errlist) = Some e"
        by (auto split: if_splits)
      with "1.IH" [OF True miss] True miss show ?thesis
        by (subst print_error_loop.simps) simp
    qed
  next
    case False
    with "1.prems" show ?thesis by simp
  qed
qed

text \<open>
  C7. \<open>print_error_message\<close> prints, for a status that the table lists, the suggestion
  of its first entry with that status when there is one, and then its message; for any
  other status it prints the number in hexadecimal with the reference to the SDK manual.
  Nothing but the standard output changes.
\<close>

theorem print_error_message_reports:
  "print_error_message code ret h =
     h\<lparr>stdout := stdout h @
        (case find (\<lambda>e. err e = ret) (sgx_errlist code) of
           None \<Rightarrow>
             ''Error code is 0x'' @ printf_X ret @ ''. Please refer to the '' @
             dquote # ''Intel SGX SDK Developer Reference'' @ dquote # '' for more details.'' @
             [newline]
         | Some e \<Rightarrow>
             (case sug e of NULL \<Rightarrow> [] | Ptr s \<Rightarrow> ''Info: '' @ s @ [newline]) @
             ''Error: '' @ msg e @ [newline])\<rparr>"
proof (cases "find (\<lambda>e. err e = ret) (sgx_errlist code)")
  case None
  then have "print_error_loop (sgx_errlist code) ret 0 h = (length (sgx_errlist code), h)"
    by (intro print_error_loop_miss) simp_all
  with None show ?thesis
    by (simp add: print_error_message_def printf_def)
next
  case (Some e)
  then obtain i where i: "i < length (sgx_errlist code)"
    and loop: "print_error_loop (sgx_errlist code) ret 0 h =
       (i, printf (''Error: '' @ msg e @ [newline])
             (case sug e of NULL \<Rightarrow> h | Ptr s \<Rightarrow> printf (''Info: '' @ s @ [newline]) h))"
    using print_error_loop_hit [of ret 0 "sgx_errlist code" e h] by auto
  with Some show ?thesis
    by (cases "sug e") (simp_all add: print_error_message_def printf_def)
qed

lemma printf_X_example: "printf_X 0x2004 = ''2004'' \<and> printf_X 0 = ''0'' \<and> printf_X 0xABC = ''ABC''"
  by code_simp

lemma print_error_message_examples:
  "stdout (print_error_message example_code 0x2006 (example_host [] (\<lambda>p. None))) =
     ''Info: Please make sure SGX module is enabled in the BIOS, and install SGX driver afterwards.'' @
     [newline] @ ''Error: Invalid SGX device.'' @ [newline] \<and>
   stdout (print_error_message example_code 0x2004 (example_host [] (\<lambda>p. None))) =
     ''Error code is 0x2004. Please refer to the '' @ dquote # ''Intel SGX SDK Developer Reference'' @
     dquote # '' for more details.'' @ [newline]"
  using printf_X_example
  by (simp add: print_error_message_reports sgx_errlist_def example_code_def example_host_def)

subsection \<open>Sealed state\<close>

text \<open>
  C8. \<open>untrusted_save_enclave_data\<close> returns a nonzero code exactly when the file cannot
  be opened for writing, and \<open>untrusted_load_enclave_data\<close> exactly when it cannot be
  opened for reading; both return when the array holds the bytes asked for. A file shorter
  than the request fills the front of the array and the result is 0 all the same.
\<close>

theorem sealed_state_return_codes:
  "(\<forall>r h1. untrusted_save_enclave_data d n h = Inr (r, h1) \<longrightarrow>
      (r \<noteq> 0 \<longleftrightarrow> fst (fopen_wb ENCLAVE_DATA_FILE h) = None)) \<and>
   (n \<le> length d \<longrightarrow> (\<exists>r h1. untrusted_save_enclave_data d n h = Inr (r, h1))) \<and>
   (\<forall>r d1. untrusted_load_enclave_data d n h = Inr (r, d1) \<longrightarrow>
      (r \<noteq> 0 \<longleftrightarrow> fopen_rb ENCLAVE_DATA_FILE h = None)) \<and>
   (n \<le> length d \<longrightarrow> (\<exists>r d1. untrusted_load_enclave_data d n h = Inr (r, d1))) \<and>
   (\<forall>bytes. fopen_rb ENCLAVE_DATA_FILE h = Some (Reader bytes) \<longrightarrow> length bytes < n \<longrightarrow>
      n \<le> length d \<longrightarrow>
      untrusted_load_enclave_data d n h = Inr (0, bytes @ drop (length bytes) d))"
proof (intro conjI allI impI)
  fix r h1
  assume "untrusted_save_enclave_data d n h = Inr (r, h1)"
  then show "r \<noteq> 0 \<longleftrightarrow> fst (fopen_wb ENCLAVE_DATA_FILE h) = None"
    by (auto simp: untrusted_save_enclave_data_def split: prod.splits option.splits if_splits)
next
  assume "n \<le> length d"
  then show "\<exists>r h1. untrusted_save_enclave_data d n h = Inr (r, h1)"
    by (auto simp: untrusted_save_enclave_data_def split: prod.splits option.splits)
next
  fix r d1
  assume "untrusted_load_enclave_data d n h = Inr (r, d1)"
  then show "r \<noteq> 0 \<longleftrightarrow> fopen_rb ENCLAVE_DATA_FILE h = None"
    by (auto simp: untrusted_load_enclave_data_def split: prod.splits option.splits if_splits)
next
  assume "n \<le> length d"
  then show "\<exists>r d1. untrusted_load_enclave_data d n h = Inr (r, d1)"
    by (auto simp: untrusted_load_enclave_data_def fread_def Let_def
        split: prod.splits option.splits FILE.splits)
next
  fix bytes
  assume "fopen_rb ENCLAVE_DATA_FILE h = Some (Reader bytes)" "length bytes < n" "n \<le> length d"
  then show "untrusted_load_enclave_data d n h = Inr (0, bytes @ drop (length bytes) d)"
    by (simp add: untrusted_load_enclave_data_def fread_def Let_def min_def)
qed

theorem sealed_state_return_codes_witness:
  "untrusted_load_enclave_data [9, 9, 9, 9] 4
     (example_host [] (only_file ENCLAVE_DATA_FILE \<lparr>readable = True, writable = False, content = [1, 2]\<rparr>)) =
     Inr (0, [1, 2, 9, 9]) \<and>
   untrusted_save_enclave_data [9, 9, 9, 9] 4
     (example_host [] (only_file ENCLAVE_DATA_FILE \<lparr>readable = True, writable = False, content = [1, 2]\<rparr>)) =
     Inr (1, example_host [] (only_file ENCLAVE_DATA_FILE \<lparr>readable = True, writable = False, content = [1, 2]\<rparr>)) \<and>
   (\<exists>h1. untrusted_save_enclave_data [9, 9, 9, 9] 4 (example_host [] (\<lambda>p. None)) = Inr (0, h1)) \<and>
   untrusted_load_enclave_data [9, 9, 9, 9] 4 (example_host [] (\<lambda>p. None)) = Inr (1, [9, 9, 9, 9])"
proof -
  let ?f = "\<lparr>readable = True, writable = False, content = [1, 2 :: uint8_t]\<rparr>"
  let ?h = "example_host [] (only_file ENCLAVE_DATA_FILE ?f)"
  let ?e = "example_host [] (\<lambda>p. None)"
  have r: "fopen_rb ENCLAVE_DATA_FILE ?h = Some (Reader [1, 2])"
    by (simp add: fopen_rb_def example_host_def only_file_def)
  have w: "fopen_wb ENCLAVE_DATA_FILE ?h = (None, ?h)"
    by (simp add: fopen_wb_def example_host_def only_file_def)
  have re: "fopen_rb ENCLAVE_DATA_FILE ?e = None"
    by (simp add: fopen_rb_def example_host_def)
  have we: "fst (fopen_wb ENCLAVE_DATA_FILE ?e) \<noteq> None"
    by (simp add: fopen_wb_def example_host_def)
  note t1 = sealed_state_return_codes [of "[9, 9, 9, 9]" 4 ?h]
  note t2 = sealed_state_return_codes [of "[9, 9, 9, 9]" 4 ?e]
  have a: "untrusted_load_enclave_data [9, 9, 9, 9] 4 ?h = Inr (0, [1, 2, 9, 9])"
    using t1 r by simp
  obtain r1 h1 where s1: "untrusted_save_enclave_data [9, 9, 9, 9] 4 ?h = Inr (r1, h1)"
    using t1 by auto
  have b: "untrusted_save_enclave_data [9, 9, 9, 9] 4 ?h = Inr (1, ?h)"
    using w by (simp add: untrusted_save_enclave_data_def)
  obtain r2 h2 where s2: "untrusted_save_enclave_data [9, 9, 9, 9] 4 ?e = Inr (r2, h2)"
    using t2 by auto
  with t2 we have "r2 = 0" by auto
  with s2 have c: "\<exists>h1. untrusted_save_enclave_data [9, 9, 9, 9] 4 ?e = Inr (0, h1)" by auto
  have d: "untrusted_load_enclave_data [9, 9, 9, 9] 4 ?e = Inr (1, [9, 9, 9, 9])"
    using re by (simp add: untrusted_load_enclave_data_def)
  from a b c d show ?thesis by blast
qed

subsection \<open>The OCALL table\<close>

lemma bridge_stdin:
  assumes "b \<in> set (table ocall_table_Enclave)" and "b p h = Inr (st, p1, h1)"
  shows "stdin h1 = stdin h \<and> st = SGX_SUCCESS"
proof -
  have fw: "stdin (snd (fopen_wb path h)) = stdin h" for path
    by (simp add: fopen_wb_def split: option.splits)
  have fwr: "stdin (snd (fwrite bs path h0)) = stdin h0" for bs path h0
    by (simp add: fwrite_def Let_def split: option.splits)
  have sv: "untrusted_save_enclave_data d n h = Inr (r, h2) \<Longrightarrow> stdin h2 = stdin h" for d n r h2
    using fw [of ENCLAVE_DATA_FILE] fwr
    by (auto simp: untrusted_save_enclave_data_def split: prod.splits option.splits if_splits)
  from assms(1) consider "b = Enclave_untrusted_print_string"
    | "b = Enclave_untrusted_save_enclave_data" | "b = Enclave_untrusted_load_enclave_data"
    by (auto simp: ocall_table_Enclave_def)
  then show ?thesis
  proof cases
    case 1
    with assms(2) show ?thesis
      by (auto simp: Enclave_untrusted_print_string_def untrusted_print_string_def printf_def
          split: pms.splits)
  next
    case 2
    with assms(2) show ?thesis
      by (auto simp: Enclave_untrusted_save_enclave_data_def dest: sv
          split: pms.splits sum.splits)
  next
    case 3
    with assms(2) show ?thesis
      by (auto simp: Enclave_untrusted_load_enclave_data_def split: pms.splits sum.splits)
  qed
qed

text \<open>
  C2. The OCALL table is to hold four capabilities, read-line among them, each at a fixed
  index. Enclave\_u.c gives it three: \<open>nr_ocall\<close> is 3 and the array has three bridges.
  \<open>untrusted_get_user_input\<close>, which App.cpp defines among its OCALL functions and
  which takes a line from the console, has no parameter block, no bridge and no index, so
  the trusted side cannot reach it.
\<close>

theorem ocall_table_lacks_read_line:
  "nr_ocall ocall_table_Enclave \<noteq> 4 \<and> length (table ocall_table_Enclave) \<noteq> 4 \<and>
   map_sum id (stdin \<circ> snd) (untrusted_get_user_input [CHR ''?'', CHR ''?'', CHR ''?''] 3
     (example_host (''a'' @ [newline]) (\<lambda>p. None))) = Inr []"
proof -
  have "fgets_nonewline ''???'' 3 (''a'' @ newline # []) =
          Inr (''a'' @ NUL # NUL # drop (length ''a'' + 2) ''???'', [])"
    by (rule fgets_nonewline_line) (simp_all add: newline_def NUL_def)
  then show ?thesis
    by (simp add: ocall_table_Enclave_def untrusted_get_user_input_def example_host_def)
qed

text \<open>
  The table as Enclave\_u.c has it: the bridges to print-string at index 0, to
  save-sealed-state at index 1 and to load-sealed-state at index 2. Each runs its own
  function on its own block, stores the return value in the block and returns
  \<open>SGX_SUCCESS\<close>. No entry reads the console.
\<close>

lemma ocall_table_three_entries:
  "nr_ocall ocall_table_Enclave = 3 \<and>
   table ocall_table_Enclave =
     [Enclave_untrusted_print_string, Enclave_untrusted_save_enclave_data,
      Enclave_untrusted_load_enclave_data] \<and>
   (table ocall_table_Enclave ! 0) (Ms_print ms_p) h =
     Inr (SGX_SUCCESS, Ms_print ms_p, untrusted_print_string (ms_str ms_p) h) \<and>
   (table ocall_table_Enclave ! 1) (Ms_save ms_s) h =
     (case untrusted_save_enclave_data (ms_sealed_data ms_s) (ms_sealed_size ms_s) h of
        Inl e \<Rightarrow> Inl e
      | Inr (r, h1) \<Rightarrow> Inr (SGX_SUCCESS, Ms_save (ms_s\<lparr>ms_retval := Some r\<rparr>), h1)) \<and>
   (table ocall_table_Enclave ! 2) (Ms_load ms_l) h =
     (case untrusted_load_enclave_data (ms_sealed_data ms_l) (ms_sealed_size ms_l) h of
        Inl e \<Rightarrow> Inl e
      | Inr (r, data) \<Rightarrow>
          Inr (SGX_SUCCESS, Ms_load (ms_l\<lparr>ms_retval := Some r, ms_sealed_data := data\<rparr>), h)) \<and>
   (\<forall>b \<in> set (table ocall_table_Enclave). \<forall>p st p1 h1.
      b p h = Inr (st, p1, h1) \<longrightarrow> stdin h1 = stdin h \<and> st = SGX_SUCCESS)"
  using bridge_stdin [of _ _ h]
  by (simp add: ocall_table_Enclave_def Enclave_untrusted_print_string_def
      Enclave_untrusted_save_enclave_data_def Enclave_untrusted_load_enclave_data_def)

lemma ocall_table_print_string_example:
  "Enclave_untrusted_print_string \<in> set (table ocall_table_Enclave) \<and>
   Enclave_untrusted_print_string (Ms_print \<lparr>ms_str = ''hi''\<rparr>) (example_host ''abc'' (\<lambda>p. None)) =
     Inr (SGX_SUCCESS, Ms_print \<lparr>ms_str = ''hi''\<rparr>,
          (example_host ''abc'' (\<lambda>p. None))\<lparr>stdout := ''hi''\<rparr>) \<and>
   stdin ((example_host ''abc'' (\<lambda>p. None))\<lparr>stdout := ''hi''\<rparr>) = stdin (example_host ''abc'' (\<lambda>p. None))"
proof -
  let ?h = "example_host ''abc'' (\<lambda>p. None)"
  have m: "Enclave_untrusted_print_string \<in> set (table ocall_table_Enclave)"
    by (simp add: ocall_table_Enclave_def)
  have r: "Enclave_untrusted_print_string (Ms_print \<lparr>ms_str = ''hi''\<rparr>) ?h =
     Inr (SGX_SUCCESS, Ms_print \<lparr>ms_str = ''hi''\<rparr>, ?h\<lparr>stdout := ''hi''\<rparr>)"
    by (simp add: Enclave_untrusted_print_string_def untrusted_print_string_def printf_def
        example_host_def)
  from ocall_table_three_entries [of "\<lparr>ms_str = ''hi''\<rparr>" ?h] m r
  have "stdin (?h\<lparr>stdout := ''hi''\<rparr>) = stdin ?h" by blast
  with m r show ?thesis by blast
qed

subsection \<open>Hex decoding\<close>


lemma word_of_nat_odd: "odd n \<Longrightarrow> (word_of_nat n :: 32 word) mod 2 \<noteq> 0"
  by force

lemma word_of_nat_even: "even n \<Longrightarrow> (word_of_nat n :: 32 word) mod 2 = 0"
  using even_iff_mod_2_eq_zero even_of_nat by blast

lemma unat_half: "n < 2 ^ 32 \<Longrightarrow> unat ((word_of_nat n :: 32 word) div 2) = n div 2"
  by (simp add: unat_div unat_of_nat)

lemma unat_byte: "v < 16 \<Longrightarrow> w < 16 \<Longrightarrow> unat (word_of_nat (16 * v + w) :: 8 word) = 16 * v + w"
  by (simp only: unat_of_nat) simp

lemma nib_hi:
  assumes "v < 16" and "w < 16"
  shows "unat (drop_bit 4 (word_of_nat (16 * v + w) :: 8 word)) = v"
proof -
  have "unat (drop_bit 4 (word_of_nat (16 * v + w) :: 8 word)) =
        drop_bit 4 (unat (word_of_nat (16 * v + w) :: 8 word))"
    by (rule unat_drop_bit_eq)
  also have "\<dots> = drop_bit 4 (16 * v + w)"
    by (simp only: unat_byte [OF assms])
  also have "\<dots> = v"
    using assms by (simp add: drop_bit_eq_div)
  finally show ?thesis .
qed

lemma nib_lo: "v < 16 \<Longrightarrow> w < 16 \<Longrightarrow> unat (word_of_nat (16 * v + w) :: 8 word) mod 16 = w"
  by (simp only: unat_byte) simp

lemma printf_02x_pair:
  assumes "v < 16" and "w < 16"
  shows "printf_02x (word_of_nat (16 * v + w)) = [hexdigit lower_digits v, hexdigit lower_digits w]"
proof -
  have "rev [0..<2] = [1, 0 :: nat]" by (simp add: upt_rec)
  then show ?thesis
    using nib_hi [OF assms] nib_lo [OF assms] assms
    by (simp add: printf_02x_def nibbles_def hexdigit_def)
qed

lemma lower_digit_cases:
  assumes "c \<in> set lower_digits"
  shows "\<exists>v < 16. hex_val c = Some v \<and> hexdigit lower_digits v = c"
    and "\<not> isspace c" and "c \<noteq> CHR ''+''" and "c \<noteq> CHR ''-''" and "c \<noteq> CHR ''x''"
    and "c \<noteq> CHR ''X''" and "c \<noteq> NUL"
  using assms
  by (auto simp: lower_digits_def hex_val_def hexdigit_def isspace_def NUL_def)

lemma sscanf_2hhx_pair:
  assumes "a \<in> set lower_digits" and "b \<in> set lower_digits"
  shows "\<exists>byte. sscanf_2hhx (a # b # rest) = Some byte \<and> printf_02x byte = [a, b]"
proof -
  from lower_digit_cases(1) [OF assms(1)] obtain v
    where v: "v < 16" "hex_val a = Some v" "hexdigit lower_digits v = a" by blast
  from lower_digit_cases(1) [OF assms(2)] obtain w
    where w: "w < 16" "hex_val b = Some w" "hexdigit lower_digits w = b" by blast
  have "sscanf_2hhx (a # b # rest) = Some (word_of_nat (16 * v + w))"
    using lower_digit_cases(2-4) [OF assms(1)] lower_digit_cases(5,6) [OF assms(2)] v w
    by (simp add: sscanf_2hhx_def del: of_nat_add of_nat_mult)
  with printf_02x_pair [OF v(1) w(1)] v(3) w(3) show ?thesis by simp
qed

lemma hex2buf_loop_lower:
  "set s \<subseteq> set lower_digits \<Longrightarrow> length s = 2 * k \<Longrightarrow>
   \<exists>bs. hex2buf_loop s k = map Some bs \<and> concat (map printf_02x bs) = s"
proof (induction k arbitrary: s)
  case 0
  then show ?case by simp
next
  case (Suc k)
  then obtain a b rest where s: "s = a # b # rest"
    by (cases s; cases "tl s") auto
  with Suc.prems have ab: "a \<in> set lower_digits" "b \<in> set lower_digits"
    and rest: "set rest \<subseteq> set lower_digits" "length rest = 2 * k"
    by auto
  from sscanf_2hhx_pair [OF ab] obtain byte
    where byte: "sscanf_2hhx (a # b # rest) = Some byte" "printf_02x byte = [a, b]" by blast
  from Suc.IH [OF rest] obtain bs
    where bs: "hex2buf_loop rest k = map Some bs" "concat (map printf_02x bs) = rest" by blast
  have "hex2buf_loop s (Suc k) = map Some (byte # bs)"
    using s byte bs by simp
  moreover have "concat (map printf_02x (byte # bs)) = s"
    using s byte bs by simp
  ultimately show ?case by blast
qed

lemma hex2buf_even:
  assumes "NUL \<notin> set s" and "even (length s)" and "length s < 2 ^ 32"
  shows "hex2buf (Ptr (s @ NUL # t)) =
           Inr (word_of_nat (length s) div 2, Some (hex2buf_loop s (length s div 2)))"
  using assms
  by (simp add: hex2buf_def strlen_append_NUL c_str_append_NUL word_of_nat_even unat_half Let_def)

lemma hex2buf_odd:
  assumes "NUL \<notin> set s" and "odd (length s)"
  shows "hex2buf (Ptr (s @ NUL # t)) = Inr (0, None)"
  using assms word_of_nat_odd [of "length s"]
  by (simp add: hex2buf_def strlen_append_NUL Let_def)

text \<open>
  The string \<open>AB\<close> is a hex string of even length. It decodes to the byte \<open>0xAB\<close>,
  and two lower-case digits for that byte are \<open>ab\<close>.
\<close>

theorem hex2buf_upper_case_counterexample:
  "hex2buf (Ptr (''AB'' @ [NUL])) = Inr (1, Some [Some 0xAB]) \<and>
   concat (map printf_02x [0xAB]) = ''ab'' \<and> ''ab'' \<noteq> ''AB''"
  by code_simp

text \<open>
  C3, as the code has it. For a string of lower-case hex digits of even length, shorter
  than \<open>2^32\<close> characters, \<open>hex2buf\<close> returns half the length and a block in which
  every byte was stored, and writing each byte as \<open>%02x\<close> does gives the string back.
  The array holds the string, its NUL and anything after it.
\<close>

theorem hex2buf_lower_case_roundtrip:
  assumes "set s \<subseteq> set lower_digits" and "even (length s)" and "length s < 2 ^ 32"
  shows "\<exists>bs. hex2buf (Ptr (s @ NUL # t)) = Inr (word_of_nat (length s) div 2, Some (map Some bs)) \<and>
              length bs = length s div 2 \<and>
              concat (map printf_02x bs) = s"
proof -
  from assms(2) have len: "length s = 2 * (length s div 2)" by auto
  from hex2buf_loop_lower [OF assms(1) len] obtain bs
    where bs: "hex2buf_loop s (length s div 2) = map Some bs" "concat (map printf_02x bs) = s"
    by blast
  have "length (hex2buf_loop s k) = k" for k
    by (induction k arbitrary: s) simp_all
  with bs(1) have l: "length bs = length s div 2"
    by (metis length_map)
  have "NUL \<notin> set s"
    using assms(1) lower_digit_cases(7) by blast
  from hex2buf_even [OF this assms(2,3)] bs l show ?thesis by auto
qed

theorem hex2buf_lower_case_roundtrip_witness:
  "hex2buf (Ptr (''0102030a'' @ NUL # ''??'')) = Inr (4, Some [Some 1, Some 2, Some 3, Some 10]) \<and>
   concat (map printf_02x [1, 2, 3, 10]) = ''0102030a''"
proof -
  have "set ''0102030a'' \<subseteq> set lower_digits" by (simp add: lower_digits_def)
  from hex2buf_lower_case_roundtrip [OF this, of "''??''"]
  obtain bs where "hex2buf (Ptr (''0102030a'' @ NUL # ''??'')) = Inr (4, Some (map Some bs))"
    and "concat (map printf_02x bs) = ''0102030a''"
    by auto
  moreover have "hex2buf (Ptr (''0102030a'' @ NUL # ''??'')) =
       Inr (4, Some [Some 1, Some 2, Some 3, Some 10])"
    by code_simp
  ultimately show ?thesis
    by (auto simp: map_eq_Cons_conv)
qed

subsection \<open>The launch token\<close>

lemma fopen_wb_Writer: "fopen_wb path h = (Some s, h1) \<Longrightarrow> s = Writer"
  by (auto simp: fopen_wb_def split: option.splits if_splits)

text \<open>
  The path is composed exactly when the user has an entry in the password database;
  without one, the load faults before it looks at any file.
\<close>

lemma token_path_Inr_iff: "(\<exists>path. token_path P = Inr path) \<longleftrightarrow> getpwuid P \<noteq> NULL"
  by (auto simp: token_path_def split: ptr.splits)

lemma retrieve_launch_token_no_passwd:
  "getpwuid P = NULL \<Longrightarrow> retrieve_launch_token P h = Inl NullDereference"
  by (simp add: retrieve_launch_token_def token_path_def)

lemma example_token_path: "token_path example_platform = Inr ''/home/user/enclave.token''"
  by (simp add: token_path_def example_platform_def)

text \<open>
  An empty token file has fewer bytes than the token, and it is read without a warning:
  the guard \<open>read_num != 0\<close> keeps the message for a token that was read in part.
\<close>

theorem launch_token_empty_file_counterexample:
  "map_sum id (\<lambda>(token, fp, h1). (token, stdout h1))
     (retrieve_launch_token example_platform
        (example_host [] (only_file ''/home/user/enclave.token''
           \<lparr>readable = True, writable = True, content = []\<rparr>))) =
   Inr (replicate 1024 0, [])"
proof -
  let ?h = "example_host [] (only_file ''/home/user/enclave.token''
           \<lparr>readable = True, writable = True, content = []\<rparr>)"
  have n: "sizeof_sgx_launch_token_t example_platform = 1024"
    by (simp add: example_platform_def)
  have rb: "fopen_rb ''/home/user/enclave.token'' ?h = Some (Reader [])"
    by (simp add: fopen_rb_def example_host_def only_file_def)
  have o: "stdout ?h = []"
    by (simp add: example_host_def)
  show ?thesis
    by (simp add: retrieve_launch_token_def example_token_path rb n fread_def o)
qed

text \<open>
  C5, as the code has it. Let the user have an entry in the password database, so that
  the path of the token file is composed. When the file is absent, unreadable or shorter
  than the token, the load returns, and \<open>sgx_create_enclave\<close> gets a token of zeros. A
  file that is readable, not empty and shorter than the token adds the warning about an
  invalid token to the output; a readable empty file changes nothing.
\<close>

theorem launch_token_zero_when_unusable:
  assumes "token_path P = Inr path"
    and "case files h path of
           None \<Rightarrow> True
         | Some f \<Rightarrow> \<not> readable f \<or> length (content f) < sizeof_sgx_launch_token_t P"
  shows "\<exists>fp h1. retrieve_launch_token P h = Inr (replicate (sizeof_sgx_launch_token_t P) 0, fp, h1) \<and>
         (\<forall>f. files h path = Some f \<longrightarrow> readable f \<longrightarrow> content f \<noteq> [] \<longrightarrow>
            stdout h1 =
              stdout h @ ''Warning: Invalid launch token read from '' @
              dquote # path @ dquote # ''.'' @ [newline]) \<and>
         (\<forall>f. files h path = Some f \<longrightarrow> readable f \<longrightarrow> content f = [] \<longrightarrow> h1 = h)"
proof (cases "fopen_rb path h")
  case None
  then have nr: "\<forall>f. files h path = Some f \<longrightarrow> \<not> readable f"
    by (auto simp: fopen_rb_def split: option.splits if_splits)
  obtain fp0 h0 where wb: "fopen_wb path h = (fp0, h0)"
    by (cases "fopen_wb path h") auto
  show ?thesis
  proof (cases fp0)
    case n: None
    with None wb assms(1) nr show ?thesis
      by (simp add: retrieve_launch_token_def)
  next
    case (Some s)
    with wb have "s = Writer" by (auto dest: fopen_wb_Writer)
    with Some None wb assms(1) nr show ?thesis
      by (simp add: retrieve_launch_token_def fread_def)
  qed
next
  case (Some s)
  then obtain f where f: "files h path = Some f" "readable f" "s = Reader (content f)"
    by (auto simp: fopen_rb_def split: option.splits if_splits)
  with assms(2) have short: "length (content f) < sizeof_sgx_launch_token_t P" by simp
  show ?thesis
  proof (cases "content f = []")
    case True
    with Some f assms(1) show ?thesis
      by (simp add: retrieve_launch_token_def fread_def)
  next
    case False
    with Some f short assms(1) show ?thesis
      by (simp add: retrieve_launch_token_def fread_def Let_def min_def printf_def)
  qed
qed

theorem launch_token_zero_when_unusable_witness:
  "map_sum id (\<lambda>(token, fp, h1). (token, stdout h1))
     (retrieve_launch_token example_platform
        (example_host [] (only_file ''/home/user/enclave.token''
           \<lparr>readable = True, writable = True, content = [1, 2, 3]\<rparr>))) =
   Inr (replicate 1024 0,
        ''Warning: Invalid launch token read from '' @ dquote # ''/home/user/enclave.token'' @
        dquote # ''.'' @ [newline])"
proof -
  let ?f = "\<lparr>readable = True, writable = True, content = [1, 2, 3 :: uint8_t]\<rparr>"
  let ?h = "example_host [] (only_file ''/home/user/enclave.token'' ?f)"
  have f: "files ?h ''/home/user/enclave.token'' = Some ?f"
    by (simp add: example_host_def only_file_def)
  have n: "sizeof_sgx_launch_token_t example_platform = 1024"
    by (simp add: example_platform_def)
  have o: "stdout ?h = []"
    by (simp add: example_host_def)
  have c: "case files ?h ''/home/user/enclave.token'' of
           None \<Rightarrow> True
         | Some f \<Rightarrow> \<not> readable f \<or> length (content f) < sizeof_sgx_launch_token_t example_platform"
    by (simp add: f n)
  from launch_token_zero_when_unusable [OF example_token_path c] f n o
  show ?thesis by auto
qed

subsection \<open>The application entry\<close>

lemma stdin_print_error_loop: "stdin (snd (print_error_loop errlist ret idx h)) = stdin h"
proof (induction errlist ret idx h rule: print_error_loop.induct)
  case (1 errlist ret idx h)
  show ?case
  proof (cases "idx < length errlist \<and> ret \<noteq> err (errlist ! idx)")
    case True
    with "1.IH" show ?thesis by (subst print_error_loop.simps) simp
  next
    case False
    then show ?thesis
      by (subst print_error_loop.simps) (auto simp: printf_def split: ptr.splits)
  qed
qed

lemma stdin_print_error_message: "stdin (print_error_message code ret h) = stdin h"
  using stdin_print_error_loop [of "sgx_errlist code" ret 0 h]
  by (cases "print_error_loop (sgx_errlist code) ret 0 h")
     (simp add: print_error_message_def printf_def Let_def)

lemma stdin_fopen_wb: "stdin (snd (fopen_wb path h)) = stdin h"
  by (simp add: fopen_wb_def split: option.splits)

lemma stdin_fwrite: "stdin (snd (fwrite bs path h)) = stdin h"
  by (simp add: fwrite_def Let_def split: option.splits)

lemma stdin_retrieve_launch_token:
  assumes "retrieve_launch_token P h = Inr (token, fp, h1)"
  shows "stdin h1 = stdin h"
proof -
  from assms obtain path where p: "token_path P = Inr path"
    by (auto simp: retrieve_launch_token_def split: sum.splits)
  with assms stdin_fopen_wb [of path h] show ?thesis
    by (auto simp: retrieve_launch_token_def printf_def Let_def
        split: option.splits prod.splits if_splits)
qed

lemma stdin_initialize_enclave:
  assumes "initialize_enclave P h = Inr (r, h2)"
  shows "stdin h2 = stdin h"
proof -
  from assms obtain path where p: "token_path P = Inr path"
    by (auto simp: initialize_enclave_def split: sum.splits)
  from assms p obtain token fp h1 where t: "retrieve_launch_token P h = Inr (token, fp, h1)"
    by (auto simp: initialize_enclave_def split: sum.splits)
  with stdin_retrieve_launch_token have h1: "stdin h1 = stdin h" by blast
  obtain ret token1 updated eid
    where c: "sgx_create_enclave P token 0 (global_eid h1) = (ret, token1, updated, eid)"
    by (cases "sgx_create_enclave P token 0 (global_eid h1)") auto
  let ?h2 = "called Sgx_create_enclave (h1\<lparr>global_eid := eid\<rparr>)"
  have h2: "stdin ?h2 = stdin h" using h1 by (simp add: called_def)
  obtain fp3 h3 where o: "fopen_wb path ?h2 = (fp3, h3)"
    by (cases "fopen_wb path ?h2") auto
  with stdin_fopen_wb [of path ?h2] h2 have h3: "stdin h3 = stdin h" by simp
  obtain n h4 where w: "fwrite (take (sizeof_sgx_launch_token_t P) token1) path h3 = (n, h4)"
    by (cases "fwrite (take (sizeof_sgx_launch_token_t P) token1) path h3") auto
  with stdin_fwrite [of "take (sizeof_sgx_launch_token_t P) token1" path h3] h3
  have h4: "stdin h4 = stdin h" by simp
  from assms show ?thesis
    using p t c o w h2 h3 h4
    by (auto simp: initialize_enclave_def Let_def stdin_print_error_message printf_def
        split: option.splits if_splits)
qed

lemma length_array: "length (array n f) = n"
  by (simp add: array_def)

lemma main_to_main_sign:
  assumes init: "initialize_enclave P h = Inr (r, h1)" "0 \<le> r"
    and ecall: "sgx_ecall P (global_eid h1) 0 ocall_table_Enclave
                  \<lparr>ms_retval = None, ms_ret_pk = Ptr (pk g)\<rparr> = (SGX_SUCCESS, ms1)"
      "ms_retval ms1 = Some 0" "ms_ret_pk ms1 = Ptr k"
    and input: "stdin h = l @ newline # x @ newline # rest"
    and l: "newline \<notin> set l" "NUL \<notin> set l" "length l < 1023"
    and x: "newline \<notin> set x" "NUL \<notin> set x" "length x < 255"
  shows "main P g h =
     main_sign P g 0
       (l @ NUL # NUL # drop (length l + 2) (array 1024 (client_data_json g)))
       (x @ NUL # NUL # drop (length x + 2) (array 256 (data_to_sign g)))
       (h1\<lparr>calls := calls h1 @ [Sgx_ecall (global_eid h1) 0],
           stdin := rest,
           stdout := stdout h1 @ print_public_key k @ ''Enter client JSON data:'' @ [newline] @
                 [newline] @ ''Enter hex data to sign:'' @ [newline] @ [newline]\<rparr>)"
proof -
  have s1: "stdin h1 = l @ newline # x @ newline # rest"
    using stdin_initialize_enclave [OF init(1)] input by simp
  have g: "get_public_key (sgx_ecall P) (global_eid h1) (Ptr None) (Ptr (pk g)) h1 =
             (SGX_SUCCESS, Ptr (Some 0), Ptr k, called (Sgx_ecall (global_eid h1) 0) h1)"
    using ecall by (simp add: get_public_key_def)
  have r1: "fgets_nonewline (array 1024 (client_data_json g)) 1024 (l @ newline # x @ newline # rest) =
              Inr (l @ NUL # NUL # drop (length l + 2) (array 1024 (client_data_json g)),
                   x @ newline # rest)"
    by (rule fgets_nonewline_line) (use l in \<open>simp_all add: length_array\<close>)
  have r2: "fgets_nonewline (array 256 (data_to_sign g)) 256 (x @ newline # rest) =
              Inr (x @ NUL # NUL # drop (length x + 2) (array 256 (data_to_sign g)), rest)"
    by (rule fgets_nonewline_line) (use x in \<open>simp_all add: length_array\<close>)
  show ?thesis
    using init g s1 r1 r2
    by (simp add: main_def printf_def called_def Let_def)
qed

lemma main_sign_odd:
  assumes "NUL \<notin> set x" and "odd (length x)"
  shows "main_sign P g status json (x @ NUL # t) h =
           Inr (- 1, printf (''Error receiving data to sign!'' @ [newline]) h)"
  using hex2buf_odd [OF assms] by (simp add: main_sign_def)

lemma half_nonzero:
  assumes "even n" and "0 < n" and "n < 2 ^ 32"
  shows "(word_of_nat n :: 32 word) div 2 \<noteq> 0"
proof
  assume "(word_of_nat n :: 32 word) div 2 = 0"
  then have "unat ((word_of_nat n :: 32 word) div 2) = 0" by simp
  with unat_half [OF assms(3)] have "n div 2 = 0" by simp
  with assms show False by presburger
qed

lemma main_sign_even:
  assumes x: "NUL \<notin> set x" "even (length x)" "x \<noteq> []" "length x < 2 ^ 32"
    and sign: "webauthn_get_signature P (global_eid h) (Some status)
                 (hex2buf_loop x (length x div 2)) (word_of_nat (length x) div 2) json 1024
                 (signature g) = (st, Some 0, sg)"
  shows "main_sign P g status json (x @ NUL # t) h =
           Inr (0, h\<lparr>stdout := stdout h @ print_signature sg,
                     calls := calls h @
                       [Webauthn_get_signature (global_eid h) (word_of_nat (length x) div 2),
                        Sgx_destroy_enclave (global_eid h)]\<rparr>)"
proof -
  have nz: "(word_of_nat (length x) :: 32 word) div 2 \<noteq> 0"
    using x by (intro half_nonzero) auto
  show ?thesis
    using hex2buf_even [OF x(1,2,4), of t] nz sign
    by (simp add: main_sign_def printf_def called_def)
qed

lemma print_down_concat: "print_down f n = concat (map f (rev [0..<n]))"
  by (induction n) simp_all

lemma length_print_down: "(\<And>i. length (f i) = c) \<Longrightarrow> length (print_down f n) = c * n"
  by (induction n) simp_all

lemma length_nibbles: "length (nibbles digits k w) = k"
  by (simp add: nibbles_def)

lemma set_nibbles_lower: "set (nibbles lower_digits k w) \<subseteq> set lower_digits"
proof -
  have "hexdigit lower_digits j \<in> set lower_digits" for j
    unfolding hexdigit_def by (rule nth_mem) (simp add: lower_digits_def)
  then show ?thesis by (auto simp: nibbles_def)
qed

lemma length_printf_02x: "length (printf_02x b) = 2"
  by (simp add: printf_02x_def length_nibbles)

lemma length_printf_08x: "length (printf_08x w) = 8"
  by (simp add: printf_08x_def length_nibbles)

text \<open>
  A run of \<open>main\<close> on a platform where the enclave is created and both ECALLs succeed,
  with a line of client data and a line of lower-case hex digits on the console.
\<close>

lemma main_success:
  assumes init: "initialize_enclave P h = Inr (r, h1)" "0 \<le> r"
    and ecall: "sgx_ecall P (global_eid h1) 0 ocall_table_Enclave
                  \<lparr>ms_retval = None, ms_ret_pk = Ptr (pk g)\<rparr> = (SGX_SUCCESS, ms1)"
      "ms_retval ms1 = Some 0" "ms_ret_pk ms1 = Ptr k"
    and sign: "snd (webauthn_get_signature P (global_eid h1) (Some 0)
                  (hex2buf_loop x (length x div 2)) (word_of_nat (length x) div 2)
                  (l @ NUL # NUL # drop (length l + 2) (array 1024 (client_data_json g))) 1024
                  (signature g)) = (Some 0, sg)"
    and input: "stdin h = l @ newline # x @ newline # rest"
    and l: "newline \<notin> set l" "NUL \<notin> set l" "length l < 1023"
    and x: "set x \<subseteq> set lower_digits" "even (length x)" "x \<noteq> []" "length x < 255"
  shows "main P g h =
     Inr (0, h1\<lparr>calls := calls h1 @
                  [Sgx_ecall (global_eid h1) 0,
                   Webauthn_get_signature (global_eid h1) (word_of_nat (length x) div 2),
                   Sgx_destroy_enclave (global_eid h1)],
                stdin := rest,
                stdout := stdout h1 @ print_public_key k @ ''Enter client JSON data:'' @ [newline] @
                  [newline] @ ''Enter hex data to sign:'' @ [newline] @ [newline] @
                  print_signature sg\<rparr>)"
proof -
  have nn: "newline \<notin> set x" "NUL \<notin> set x"
    using x(1) by (auto simp: lower_digits_def newline_def NUL_def)
  let ?json = "l @ NUL # NUL # drop (length l + 2) (array 1024 (client_data_json g))"
  let ?h4 = "h1\<lparr>calls := calls h1 @ [Sgx_ecall (global_eid h1) 0], stdin := rest,
      stdout := stdout h1 @ print_public_key k @ ''Enter client JSON data:'' @ [newline] @
        [newline] @ ''Enter hex data to sign:'' @ [newline] @ [newline]\<rparr>"
  obtain st where st: "webauthn_get_signature P (global_eid ?h4) (Some 0)
      (hex2buf_loop x (length x div 2)) (word_of_nat (length x) div 2) ?json 1024 (signature g) =
      (st, Some 0, sg)"
    using sign
    by (cases "webauthn_get_signature P (global_eid h1) (Some 0)
      (hex2buf_loop x (length x div 2)) (word_of_nat (length x) div 2) ?json 1024 (signature g)") simp
  have "main P g h = main_sign P g 0 ?json
      (x @ NUL # NUL # drop (length x + 2) (array 256 (data_to_sign g))) ?h4"
    using x(4) by (intro main_to_main_sign [OF init ecall input l nn]) simp
  also have "\<dots> = Inr (0, ?h4\<lparr>stdout := stdout ?h4 @ print_signature sg,
                     calls := calls ?h4 @
                       [Webauthn_get_signature (global_eid ?h4) (word_of_nat (length x) div 2),
                        Sgx_destroy_enclave (global_eid ?h4)]\<rparr>)"
    using x by (intro main_sign_even [OF nn(2) _ _ _ st]) simp_all
  finally show ?thesis by simp
qed

lemma main_odd:
  assumes init: "initialize_enclave P h = Inr (r, h1)" "0 \<le> r"
    and ecall: "sgx_ecall P (global_eid h1) 0 ocall_table_Enclave
                  \<lparr>ms_retval = None, ms_ret_pk = Ptr (pk g)\<rparr> = (SGX_SUCCESS, ms1)"
      "ms_retval ms1 = Some 0" "ms_ret_pk ms1 = Ptr k"
    and input: "stdin h = l @ newline # x @ newline # rest"
    and l: "newline \<notin> set l" "NUL \<notin> set l" "length l < 1023"
    and x: "newline \<notin> set x" "NUL \<notin> set x" "length x < 255" "odd (length x)"
  shows "main P g h =
     Inr (- 1, h1\<lparr>calls := calls h1 @ [Sgx_ecall (global_eid h1) 0],
                  stdin := rest,
                  stdout := stdout h1 @ print_public_key k @ ''Enter client JSON data:'' @
                    [newline] @ [newline] @ ''Enter hex data to sign:'' @ [newline] @ [newline] @
                    ''Error receiving data to sign!'' @ [newline]\<rparr>)"
  by (simp add: main_to_main_sign [OF init ecall input l x(1-3)] main_sign_odd [OF x(2,4)]
      printf_def)

text \<open>The example platform creates the enclave: a missing token file is created empty.\<close>

lemma example_initialize_enclave:
  "initialize_enclave example_platform (example_host input (\<lambda>p. None)) =
     Inr (0, (example_host input (\<lambda>p. None))
           \<lparr>global_eid := 2,
            files := (\<lambda>p. None)(''/home/user/enclave.token'' \<mapsto>
                       \<lparr>readable = True, writable = True, content = []\<rparr>),
            calls := [Sgx_create_enclave]\<rparr>)"
proof -
  let ?h = "example_host input (\<lambda>p. None)"
  let ?h1 = "?h\<lparr>files := (\<lambda>p. None)(''/home/user/enclave.token'' \<mapsto>
                       \<lparr>readable = True, writable = True, content = []\<rparr>)\<rparr>"
  have n: "sizeof_sgx_launch_token_t example_platform = 1024"
    by (simp add: example_platform_def)
  have rb: "fopen_rb ''/home/user/enclave.token'' ?h = None"
    by (simp add: fopen_rb_def example_host_def)
  have wb: "fopen_wb ''/home/user/enclave.token'' ?h = (Some Writer, ?h1)"
    by (simp add: fopen_wb_def example_host_def)
  have r: "retrieve_launch_token example_platform ?h = Inr (replicate 1024 0, Some Writer, ?h1)"
    by (simp add: retrieve_launch_token_def example_token_path rb wb n fread_def)
  have c: "sgx_create_enclave example_platform t u e = (SGX_SUCCESS, t, 0, 2)" for t u e
    by (simp add: example_platform_def)
  show ?thesis
    by (simp add: initialize_enclave_def example_token_path r c called_def)
       (simp add: example_host_def)
qed

lemma example_json_ok:
  "newline \<notin> set example_json" "NUL \<notin> set example_json" "length example_json < 1023"
  by (simp_all add: example_json_def newline_def NUL_def dquote_def)

text \<open>
  C4. \<open>hex2buf\<close> returns 0 for a string of odd length and assigns nothing to \<open>*ret\<close>:
  it returns before \<open>malloc\<close>. When \<open>main\<close> has created the enclave and got the public
  key, and the line of hex input has odd length, it prints the error message and returns
  -1; the host has seen the one ECALL for the key and no call for a signature.
\<close>

theorem odd_hex_input_rejected:
  assumes "NUL \<notin> set x" and "odd (length x)"
  shows "hex2buf (Ptr (x @ NUL # t)) = Inr (0, None) \<and>
    (\<forall>r h1 ms1 k l rest.
       initialize_enclave P h = Inr (r, h1) \<longrightarrow> 0 \<le> r \<longrightarrow>
       sgx_ecall P (global_eid h1) 0 ocall_table_Enclave
         \<lparr>ms_retval = None, ms_ret_pk = Ptr (pk g)\<rparr> = (SGX_SUCCESS, ms1) \<longrightarrow>
       ms_retval ms1 = Some 0 \<longrightarrow> ms_ret_pk ms1 = Ptr k \<longrightarrow>
       stdin h = l @ newline # x @ newline # rest \<longrightarrow>
       newline \<notin> set l \<longrightarrow> NUL \<notin> set l \<longrightarrow> length l < 1023 \<longrightarrow>
       newline \<notin> set x \<longrightarrow> length x < 255 \<longrightarrow>
       main P g h =
         Inr (- 1, h1\<lparr>calls := calls h1 @ [Sgx_ecall (global_eid h1) 0],
                      stdin := rest,
                      stdout := stdout h1 @ print_public_key k @ ''Enter client JSON data:'' @
                        [newline] @ [newline] @ ''Enter hex data to sign:'' @ [newline] @
                        [newline] @ ''Error receiving data to sign!'' @ [newline]\<rparr>))"
proof (intro conjI allI impI)
  show "hex2buf (Ptr (x @ NUL # t)) = Inr (0, None)"
    by (rule hex2buf_odd [OF assms])
next
  fix r h1 ms1 k l rest
  assume init: "initialize_enclave P h = Inr (r, h1)" "0 \<le> r"
    and ecall: "sgx_ecall P (global_eid h1) 0 ocall_table_Enclave
         \<lparr>ms_retval = None, ms_ret_pk = Ptr (pk g)\<rparr> = (SGX_SUCCESS, ms1)"
      "ms_retval ms1 = Some 0" "ms_ret_pk ms1 = Ptr k"
    and input: "stdin h = l @ newline # x @ newline # rest"
    and l: "newline \<notin> set l" "NUL \<notin> set l" "length l < 1023"
    and x: "newline \<notin> set x" "length x < 255"
  show "main P g h =
         Inr (- 1, h1\<lparr>calls := calls h1 @ [Sgx_ecall (global_eid h1) 0],
                      stdin := rest,
                      stdout := stdout h1 @ print_public_key k @ ''Enter client JSON data:'' @
                        [newline] @ [newline] @ ''Enter hex data to sign:'' @ [newline] @
                        [newline] @ ''Error receiving data to sign!'' @ [newline]\<rparr>)"
    by (rule main_odd [OF init ecall input l x(1) assms(1) x(2) assms(2)])
qed

theorem odd_hex_input_rejected_witness:
  "hex2buf (Ptr (''abc'' @ NUL # ''??'')) = Inr (0, None) \<and>
   map_sum id (\<lambda>(r, h1). (r, stdout h1, calls h1))
     (main example_platform example_stack
        (example_host (example_json @ newline # ''abc'' @ newline # []) (\<lambda>p. None))) =
   Inr (- 1,
        print_public_key example_pk @ ''Enter client JSON data:'' @ [newline] @ [newline] @
        ''Enter hex data to sign:'' @ [newline] @ [newline] @
        ''Error receiving data to sign!'' @ [newline],
        [Sgx_create_enclave, Sgx_ecall 2 0])"
proof -
  let ?h = "example_host (example_json @ newline # ''abc'' @ newline # []) (\<lambda>p. None)"
  have x: "NUL \<notin> set ''abc''" "odd (length ''abc'')" "newline \<notin> set ''abc''" "length ''abc'' < 255"
    by (simp_all add: NUL_def newline_def)
  have e: "sgx_ecall example_platform eid 0 ocall_table_Enclave
             \<lparr>ms_retval = None, ms_ret_pk = Ptr (pk example_stack)\<rparr> =
           (SGX_SUCCESS, \<lparr>ms_retval = Some 0, ms_ret_pk = Ptr example_pk\<rparr>)" for eid
    by (simp add: example_platform_def example_ecall_def)
  have i: "stdin ?h = example_json @ newline # ''abc'' @ newline # []"
    by (simp add: example_host_def)
  note t = odd_hex_input_rejected [OF x(1,2), of "''??''" example_platform ?h example_stack]
  from t have a: "hex2buf (Ptr (''abc'' @ NUL # ''??'')) = Inr (0, None)" by blast
  from t example_initialize_enclave [of "example_json @ newline # ''abc'' @ newline # []"]
    e i example_json_ok x(3,4)
  have "main example_platform example_stack ?h =
         Inr (- 1, (?h\<lparr>global_eid := 2,
            files := (\<lambda>p. None)(''/home/user/enclave.token'' \<mapsto>
                       \<lparr>readable = True, writable = True, content = []\<rparr>),
            calls := [Sgx_create_enclave]\<rparr>)\<lparr>calls := [Sgx_create_enclave] @ [Sgx_ecall 2 0],
                      stdin := [],
                      stdout := stdout ?h @ print_public_key example_pk @ ''Enter client JSON data:'' @
                        [newline] @ [newline] @ ''Enter hex data to sign:'' @ [newline] @
                        [newline] @ ''Error receiving data to sign!'' @ [newline]\<rparr>)"
    by simp
  then have "map_sum id (\<lambda>(r, h1). (r, stdout h1, calls h1)) (main example_platform example_stack ?h) =
   Inr (- 1,
        print_public_key example_pk @ ''Enter client JSON data:'' @ [newline] @ [newline] @
        ''Enter hex data to sign:'' @ [newline] @ [newline] @
        ''Error receiving data to sign!'' @ [newline],
        [Sgx_create_enclave, Sgx_ecall 2 0])"
    by (simp add: example_host_def)
  with a show ?thesis by blast
qed



lemma example_hex_ok:
  "set ''0102030a'' \<subseteq> set lower_digits" "even (length ''0102030a'')" "''0102030a'' \<noteq> []"
  "length ''0102030a'' < 255"
  by (simp_all add: lower_digits_def)

lemma example_bytes: "hex2buf_loop ''0102030a'' (length ''0102030a'' div 2) = [Some 1, Some 2, Some 3, Some 10]"
  by code_simp

lemma example_print_signature:
  "print_signature (example_sign [Some 1, Some 2, Some 3, Some 10]) =
     ''Resulting signature: '' @
     ''0000001700000016000000150000001400000013000000120000001100000010'' @ '','' @
     ''0000007000000060000000500000004000000030000000200000001000000000'' @ [newline]"
  by code_simp

lemma example_main:
  "main example_platform example_stack
     (example_host (example_json @ newline # ''0102030a'' @ newline # []) (\<lambda>p. None)) =
   Inr (0, (example_host (example_json @ newline # ''0102030a'' @ newline # []) (\<lambda>p. None))
             \<lparr>global_eid := 2,
              files := (\<lambda>p. None)(''/home/user/enclave.token'' \<mapsto>
                         \<lparr>readable = True, writable = True, content = []\<rparr>),
              calls := [Sgx_create_enclave, Sgx_ecall 2 0, Webauthn_get_signature 2 4,
                        Sgx_destroy_enclave 2],
              stdin := [],
              stdout := print_public_key example_pk @ ''Enter client JSON data:'' @ [newline] @
                [newline] @ ''Enter hex data to sign:'' @ [newline] @ [newline] @
                print_signature (example_sign [Some 1, Some 2, Some 3, Some 10])\<rparr>)"
proof -
  let ?in = "example_json @ newline # ''0102030a'' @ newline # []"
  let ?h = "example_host ?in (\<lambda>p. None)"
  have e: "sgx_ecall example_platform eid 0 ocall_table_Enclave
             \<lparr>ms_retval = None, ms_ret_pk = Ptr (pk example_stack)\<rparr> =
           (SGX_SUCCESS, \<lparr>ms_retval = Some 0, ms_ret_pk = Ptr example_pk\<rparr>)" for eid
    by (simp add: example_platform_def example_ecall_def)
  have s: "snd (webauthn_get_signature example_platform eid st
                  (hex2buf_loop ''0102030a'' (length ''0102030a'' div 2)) n json 1024 sg) =
             (Some 0, example_sign [Some 1, Some 2, Some 3, Some 10])" for eid st n json sg
    unfolding example_bytes by (simp add: example_platform_def)
  have i: "stdin ?h = ?in"
    by (simp add: example_host_def)
  have w: "(word_of_nat (length ''0102030a'') :: 32 word) div 2 = 4"
    by simp
  have i0: "(0::int) \<le> 0" by simp
  have r1: "ms_retval \<lparr>ms_retval = Some 0, ms_ret_pk = Ptr example_pk\<rparr> = Some 0" by simp
  have r2: "ms_ret_pk \<lparr>ms_retval = Some 0, ms_ret_pk = Ptr example_pk\<rparr> = Ptr example_pk" by simp
  from main_success [OF example_initialize_enclave i0 e r1 r2 s i example_json_ok example_hex_ok] w
  show ?thesis
    by (simp add: example_host_def)
qed

lemma example_print_public_key:
  "print_public_key example_pk =
     ''Public Key:'' @ [newline] @
     ''gx: 1f1e1d1c1b1a191817161514131211100f0e0d0c0b0a09080706050403020100'' @ [newline] @
     ''gy: e0e1e2e3e4e5e6e7e8e9eaebecedeeeff0f1f2f3f4f5f6f7f8f9fafbfcfdfeff'' @ [newline] @
     [newline, newline]"
  by code_simp

text \<open>
  On the example platform, whose signer adds the sum of the bytes to every limb of
  \<open>x\<close>, with the input of the scenario, each coordinate of the signature is printed as
  64 hex characters, not 256: 8 limbs of 8 characters.
\<close>

theorem main_signature_width_counterexample:
  "map_sum id (\<lambda>(r, h1). (r, stdout h1))
     (main example_platform example_stack
        (example_host (example_json @ newline # ''0102030a'' @ newline # []) (\<lambda>p. None))) =
   Inr (0,
     ''Public Key:'' @ [newline] @
     ''gx: 1f1e1d1c1b1a191817161514131211100f0e0d0c0b0a09080706050403020100'' @ [newline] @
     ''gy: e0e1e2e3e4e5e6e7e8e9eaebecedeeeff0f1f2f3f4f5f6f7f8f9fafbfcfdfeff'' @ [newline] @
     [newline, newline] @
     ''Enter client JSON data:'' @ [newline] @ [newline] @
     ''Enter hex data to sign:'' @ [newline] @ [newline] @
     ''Resulting signature: '' @
     ''0000001700000016000000150000001400000013000000120000001100000010'' @ '','' @
     ''0000007000000060000000500000004000000030000000200000001000000000'' @ [newline]) \<and>
   length ''0000001700000016000000150000001400000013000000120000001100000010'' \<noteq> 256 \<and>
   length ''0000007000000060000000500000004000000030000000200000001000000000'' \<noteq> 256"
proof -
  have "map_sum id (\<lambda>(r, h1). (r, stdout h1))
     (main example_platform example_stack
        (example_host (example_json @ newline # ''0102030a'' @ newline # []) (\<lambda>p. None))) =
     Inr (0, print_public_key example_pk @ ''Enter client JSON data:'' @ [newline] @
                [newline] @ ''Enter hex data to sign:'' @ [newline] @ [newline] @
                print_signature (example_sign [Some 1, Some 2, Some 3, Some 10]))"
    unfolding example_main by (simp add: example_host_def)
  then show ?thesis
    unfolding example_print_public_key example_print_signature by simp
qed

text \<open>
  C9, as the code has it. When the enclave is created, the key is retrieved and the
  signing call, for the bytes decoded from the hex line and the client data read, reports
  status 0 and gives the signature \<open>sg\<close>, and the console gives a line of client data and a line
  of lower-case hex digits of even length (such as \<^verbatim>\<open>{"origin":"example"}\<close> and
  \<open>0102030a\<close>), \<open>main\<close> returns 0. After the output of the initialisation it has
  printed the public key as a \<open>gx\<close> and a \<open>gy\<close> field of 64 hex characters each, the 32
  bytes from index 31 down to index 0, then the two prompts, then the signature as two
  fields of 64 hex characters separated by a comma, the 8 limbs of 32 bits from index 7
  down to index 0.
\<close>

theorem main_prints_key_and_signature:
  assumes init: "initialize_enclave P h = Inr (r, h1)" "0 \<le> r"
    and ecall: "sgx_ecall P (global_eid h1) 0 ocall_table_Enclave
                  \<lparr>ms_retval = None, ms_ret_pk = Ptr (pk g)\<rparr> = (SGX_SUCCESS, ms1)"
      "ms_retval ms1 = Some 0" "ms_ret_pk ms1 = Ptr k"
    and sign: "snd (webauthn_get_signature P (global_eid h1) (Some 0)
                  (hex2buf_loop x (length x div 2)) (word_of_nat (length x) div 2)
                  (l @ NUL # NUL # drop (length l + 2) (array 1024 (client_data_json g))) 1024
                  (signature g)) = (Some 0, sg)"
    and input: "stdin h = l @ newline # x @ newline # rest"
    and l: "newline \<notin> set l" "NUL \<notin> set l" "length l < 1023"
    and x: "set x \<subseteq> set lower_digits" "even (length x)" "x \<noteq> []" "length x < 255"
  shows "(\<exists>h2. main P g h = Inr (0, h2) \<and>
      stdout h2 =
        stdout h1 @ ''Public Key:'' @ [newline] @
        ''gx: '' @ concat (map (\<lambda>i. printf_02x (gx k i)) (rev [0..<32])) @ [newline] @
        ''gy: '' @ concat (map (\<lambda>i. printf_02x (gy k i)) (rev [0..<32])) @ [newline] @
        [newline, newline] @
        ''Enter client JSON data:'' @ [newline] @ [newline] @
        ''Enter hex data to sign:'' @ [newline] @ [newline] @
        ''Resulting signature: '' @
        concat (map (\<lambda>i. printf_08x (sig_x sg i)) (rev [0..<8])) @ '','' @
        concat (map (\<lambda>i. printf_08x (sig_y sg i)) (rev [0..<8])) @ [newline]) \<and>
    length (concat (map (\<lambda>i. printf_02x (gx k i)) (rev [0..<32]))) = 64 \<and>
    length (concat (map (\<lambda>i. printf_02x (gy k i)) (rev [0..<32]))) = 64 \<and>
    length (concat (map (\<lambda>i. printf_08x (sig_x sg i)) (rev [0..<8]))) = 64 \<and>
    length (concat (map (\<lambda>i. printf_08x (sig_y sg i)) (rev [0..<8]))) = 64"
proof (intro conjI)
  have pk: "print_public_key k =
        ''Public Key:'' @ [newline] @
        ''gx: '' @ concat (map (\<lambda>i. printf_02x (gx k i)) (rev [0..<32])) @ [newline] @
        ''gy: '' @ concat (map (\<lambda>i. printf_02x (gy k i)) (rev [0..<32])) @ [newline] @
        [newline, newline]"
    by (simp only: print_public_key_def print_down_concat SGX_ECP256_KEY_SIZE_def)
  have sg: "print_signature sg =
        ''Resulting signature: '' @
        concat (map (\<lambda>i. printf_08x (sig_x sg i)) (rev [0..<8])) @ '','' @
        concat (map (\<lambda>i. printf_08x (sig_y sg i)) (rev [0..<8])) @ [newline]"
    by (simp only: print_signature_def print_down_concat SGX_NISTP_ECP256_KEY_SIZE_def)
  show "\<exists>h2. main P g h = Inr (0, h2) \<and>
      stdout h2 =
        stdout h1 @ ''Public Key:'' @ [newline] @
        ''gx: '' @ concat (map (\<lambda>i. printf_02x (gx k i)) (rev [0..<32])) @ [newline] @
        ''gy: '' @ concat (map (\<lambda>i. printf_02x (gy k i)) (rev [0..<32])) @ [newline] @
        [newline, newline] @
        ''Enter client JSON data:'' @ [newline] @ [newline] @
        ''Enter hex data to sign:'' @ [newline] @ [newline] @
        ''Resulting signature: '' @
        concat (map (\<lambda>i. printf_08x (sig_x sg i)) (rev [0..<8])) @ '','' @
        concat (map (\<lambda>i. printf_08x (sig_y sg i)) (rev [0..<8])) @ [newline]"
    by (simp add: main_success [OF init ecall sign input l x] pk sg)
  have two: "length (print_down (\<lambda>i. printf_02x (f i)) 32) = 64" for f :: "nat \<Rightarrow> uint8_t"
    using length_print_down [of "\<lambda>i. printf_02x (f i)" 2 32] by (simp add: length_printf_02x)
  have eight: "length (print_down (\<lambda>i. printf_08x (f i)) 8) = 64" for f :: "nat \<Rightarrow> uint32_t"
    using length_print_down [of "\<lambda>i. printf_08x (f i)" 8 8] by (simp add: length_printf_08x)
  show "length (concat (map (\<lambda>i. printf_02x (gx k i)) (rev [0..<32]))) = 64"
    using two [of "gx k"] by (simp only: print_down_concat)
  show "length (concat (map (\<lambda>i. printf_02x (gy k i)) (rev [0..<32]))) = 64"
    using two [of "gy k"] by (simp only: print_down_concat)
  show "length (concat (map (\<lambda>i. printf_08x (sig_x sg i)) (rev [0..<8]))) = 64"
    using eight [of "sig_x sg"] by (simp only: print_down_concat)
  show "length (concat (map (\<lambda>i. printf_08x (sig_y sg i)) (rev [0..<8]))) = 64"
    using eight [of "sig_y sg"] by (simp only: print_down_concat)
qed

theorem main_prints_key_and_signature_witness:
  "\<exists>h2. main example_platform example_stack
          (example_host (example_json @ newline # ''0102030a'' @ newline # []) (\<lambda>p. None)) =
        Inr (0, h2) \<and>
        stdout h2 =
          ''Public Key:'' @ [newline] @
          ''gx: 1f1e1d1c1b1a191817161514131211100f0e0d0c0b0a09080706050403020100'' @ [newline] @
          ''gy: e0e1e2e3e4e5e6e7e8e9eaebecedeeeff0f1f2f3f4f5f6f7f8f9fafbfcfdfeff'' @ [newline] @
          [newline, newline] @
          ''Enter client JSON data:'' @ [newline] @ [newline] @
          ''Enter hex data to sign:'' @ [newline] @ [newline] @
          ''Resulting signature: '' @
          ''0000001700000016000000150000001400000013000000120000001100000010'' @ '','' @
          ''0000007000000060000000500000004000000030000000200000001000000000'' @ [newline]"
proof -
  let ?in = "example_json @ newline # ''0102030a'' @ newline # []"
  have e: "sgx_ecall example_platform eid 0 ocall_table_Enclave
             \<lparr>ms_retval = None, ms_ret_pk = Ptr (pk example_stack)\<rparr> =
           (SGX_SUCCESS, \<lparr>ms_retval = Some 0, ms_ret_pk = Ptr example_pk\<rparr>)" for eid
    by (simp add: example_platform_def example_ecall_def)
  have s: "snd (webauthn_get_signature example_platform eid st
                  (hex2buf_loop ''0102030a'' (length ''0102030a'' div 2)) n json 1024 sg) =
             (Some 0, example_sign [Some 1, Some 2, Some 3, Some 10])" for eid st n json sg
    unfolding example_bytes by (simp add: example_platform_def)
  have i: "stdin (example_host ?in (\<lambda>p. None)) = ?in"
    by (simp add: example_host_def)
  have i0: "(0::int) \<le> 0" by simp
  have r1: "ms_retval \<lparr>ms_retval = Some 0, ms_ret_pk = Ptr example_pk\<rparr> = Some 0" by simp
  have r2: "ms_ret_pk \<lparr>ms_retval = Some 0, ms_ret_pk = Ptr example_pk\<rparr> = Ptr example_pk" by simp
  have gxs: "concat (map (\<lambda>i. printf_02x (gx example_pk i)) (rev [0..<32])) =
      ''1f1e1d1c1b1a191817161514131211100f0e0d0c0b0a09080706050403020100''"
    by code_simp
  have gys: "concat (map (\<lambda>i. printf_02x (gy example_pk i)) (rev [0..<32])) =
      ''e0e1e2e3e4e5e6e7e8e9eaebecedeeeff0f1f2f3f4f5f6f7f8f9fafbfcfdfeff''"
    by code_simp
  have sxs: "concat (map (\<lambda>i. printf_08x (sig_x (example_sign [Some 1, Some 2, Some 3, Some 10]) i)) (rev [0..<8])) =
      ''0000001700000016000000150000001400000013000000120000001100000010''"
    by code_simp
  have sys: "concat (map (\<lambda>i. printf_08x (sig_y (example_sign [Some 1, Some 2, Some 3, Some 10]) i)) (rev [0..<8])) =
      ''0000007000000060000000500000004000000030000000200000001000000000''"
    by code_simp
  from main_prints_key_and_signature [OF example_initialize_enclave i0 e r1 r2 s i
      example_json_ok example_hex_ok]
  show ?thesis
    unfolding gxs gys sxs sys by (simp add: example_host_def)
qed

end
